theory Spec2Isabelle
  imports Complex_Main
begin

text \<open>
  A shallow embedding of the reasoning and logic evaluator of InsightEngine
  (\<open>src/insight_engine\<close>): the four agents with their response parsers
  (\<open>agents/*.py\<close>), the data models (\<open>models/evaluation.py\<close>) and the evaluator
  (\<open>evaluators/reasoning_logic_evaluator.py\<close>). The language model, \<open>json.loads\<close> and
  the conversions of strings by the interpreter are parameters of the model; an
  exception is a value \<open>Inl e\<close>.
\<close>

section \<open>Python values\<close>

text \<open>
  A Python \<open>str\<close> is a sequence of Unicode code points; it is modelled as the list of
  these code points. \<open>ascii\<close> embeds an ASCII literal.
\<close>

type_synonym pystr = "nat list"

definition ascii :: "string \<Rightarrow> pystr" where
  "ascii s = map of_char s"

text \<open>
  A Python \<open>float\<close>: the finite values are idealised as real numbers (no rounding of
  the arithmetic), the three special values are kept, since \<open>json.loads\<close> accepts
  \<open>NaN\<close>, \<open>Infinity\<close> and \<open>-Infinity\<close> and \<open>float(str)\<close> accepts their spellings.
\<close>

datatype pyfloat = Fin (the_Fin: real) | PInf | NInf | NaN

text \<open>The comparison \<open>a < b\<close> of two floats; every comparison with \<open>NaN\<close> is false.\<close>

fun pf_lt :: "pyfloat \<Rightarrow> pyfloat \<Rightarrow> bool" where
  "pf_lt (Fin a) (Fin b) = (a < b)"
| "pf_lt (Fin a) PInf = True"
| "pf_lt (Fin a) NInf = False"
| "pf_lt (Fin a) NaN = False"
| "pf_lt PInf b = False"
| "pf_lt NInf (Fin b) = True"
| "pf_lt NInf PInf = True"
| "pf_lt NInf NInf = False"
| "pf_lt NInf NaN = False"
| "pf_lt NaN b = False"

text \<open>
  The builtins \<open>min(a, b)\<close> and \<open>max(a, b)\<close> on two arguments: the first argument is
  kept unless the second compares strictly smaller (greater).
\<close>

definition py_min :: "pyfloat \<Rightarrow> pyfloat \<Rightarrow> pyfloat" where
  "py_min a b = (if pf_lt b a then b else a)"

definition py_max :: "pyfloat \<Rightarrow> pyfloat \<Rightarrow> pyfloat" where
  "py_max a b = (if pf_lt a b then b else a)"

fun pf_neg :: "pyfloat \<Rightarrow> pyfloat" where
  "pf_neg (Fin a) = Fin (- a)"
| "pf_neg PInf = NInf"
| "pf_neg NInf = PInf"
| "pf_neg NaN = NaN"

fun pf_add :: "pyfloat \<Rightarrow> pyfloat \<Rightarrow> pyfloat" where
  "pf_add (Fin a) (Fin b) = Fin (a + b)"
| "pf_add (Fin a) b = b"
| "pf_add NaN b = NaN"
| "pf_add PInf (Fin b) = PInf"
| "pf_add PInf PInf = PInf"
| "pf_add PInf NInf = NaN"
| "pf_add PInf NaN = NaN"
| "pf_add NInf (Fin b) = NInf"
| "pf_add NInf NInf = NInf"
| "pf_add NInf PInf = NaN"
| "pf_add NInf NaN = NaN"

definition pf_sub :: "pyfloat \<Rightarrow> pyfloat \<Rightarrow> pyfloat" where
  "pf_sub a b = pf_add a (pf_neg b)"

text \<open>Division of a float by the length of a non-empty list.\<close>

fun pf_div_len :: "pyfloat \<Rightarrow> nat \<Rightarrow> pyfloat" where
  "pf_div_len (Fin a) n = Fin (a / real n)"
| "pf_div_len PInf n = PInf"
| "pf_div_len NInf n = NInf"
| "pf_div_len NaN n = NaN"

text \<open>\<open>sum(...)\<close> over floats starts from the integer 0.\<close>

definition pf_sum :: "pyfloat list \<Rightarrow> pyfloat" where
  "pf_sum xs = foldl pf_add (Fin 0) xs"

text \<open>The expression \<open>max(0.0, min(1.0, x))\<close>, which every agent applies to a score.\<close>

definition clamp01 :: "pyfloat \<Rightarrow> pyfloat" where
  "clamp01 x = py_max (Fin 0) (py_min (Fin 1) x)"

definition in_unit :: "pyfloat \<Rightarrow> bool" where
  "in_unit x = (case x of Fin r \<Rightarrow> 0 \<le> r \<and> r \<le> 1 | PInf \<Rightarrow> False | NInf \<Rightarrow> False
     | NaN \<Rightarrow> False)"

text \<open>
  The values \<open>json.loads\<close> returns. A \<open>dict\<close> is an association list read with
  \<open>map_of\<close>; its keys are strings.
\<close>

datatype json =
    JNull
  | JBool bool
  | JInt int
  | JFloat pyfloat
  | JStr pystr
  | JList "json list"
  | JDict "(pystr \<times> json) list"

definition type_name :: "json \<Rightarrow> pystr" where
  "type_name v = (case v of JNull \<Rightarrow> ascii ''NoneType'' | JBool b \<Rightarrow> ascii ''bool''
     | JInt n \<Rightarrow> ascii ''int'' | JFloat x \<Rightarrow> ascii ''float'' | JStr s \<Rightarrow> ascii ''str''
     | JList xs \<Rightarrow> ascii ''list'' | JDict kvs \<Rightarrow> ascii ''dict'')"

text \<open>A type name between single quotes, as the interpreter's messages print it.\<close>

definition quoted_type :: "json \<Rightarrow> pystr" where
  "quoted_type v = 39 # type_name v @ [39]"

section \<open>Exceptions\<close>

text \<open>
  An exception is its class and the text \<open>str(e)\<close>. All classes below derive from
  \<open>Exception\<close>; \<open>JSONDecodeError\<close> derives from \<open>ValueError\<close>. \<open>OtherException\<close> stands
  for any further subclass of \<open>Exception\<close> (a provider or transport failure, say).
\<close>

datatype exn_class =
    JSONDecodeError | ValueError | KeyError | TypeError | AttributeError
  | OverflowError | ValidationError | OtherException

datatype error = Error exn_class pystr

definition bindE :: "error + 'a \<Rightarrow> ('a \<Rightarrow> error + 'b) \<Rightarrow> error + 'b" where
  "bindE m f = (case m of Inl e \<Rightarrow> Inl e | Inr x \<Rightarrow> f x)"

fun mapE :: "('a \<Rightarrow> error + 'b) \<Rightarrow> 'a list \<Rightarrow> error + 'b list" where
  "mapE f [] = Inr []"
| "mapE f (x # xs) = bindE (f x) (\<lambda>y. bindE (mapE f xs) (\<lambda>ys. Inr (y # ys)))"

section \<open>The environment: the LLM capability and the Python library\<close>

datatype agent =
  ReasoningDepthAgent | ArgumentStructureAgent | LogicalFallacyAgent | ConsistencyAgent

text \<open>
  What the code calls and the repository does not define:
  \<^item> \<open>llm_invoke a article_text\<close>: \<open>self.llm.invoke(prompt).content\<close> for the prompt of
    agent \<open>a\<close>. The prompt is the agent's constant template with the article text
    substituted, so it is determined by the agent and the article text;
  \<^item> \<open>json_loads\<close>: \<open>json.loads\<close>, raising \<open>JSONDecodeError\<close> on a syntax error;
  \<^item> \<open>float_of_str\<close>, \<open>int_of_str\<close>: \<open>float(s)\<close> and \<open>int(s)\<close> on a string, \<open>Inl m\<close> being
    a \<open>ValueError\<close> with message \<open>m\<close>;
  \<^item> \<open>str_of\<close>: \<open>str(v)\<close> on a value that is not a string;
  \<^item> \<open>pydantic_lax_str\<close>: what pydantic makes of a value that is not a string in a
    field declared \<open>str\<close> (\<open>None\<close> when it rejects it).
\<close>

record env =
  llm_invoke :: "agent \<Rightarrow> pystr \<Rightarrow> error + pystr"
  json_loads :: "pystr \<Rightarrow> error + json"
  float_of_str :: "pystr \<Rightarrow> pystr + pyfloat"
  int_of_str :: "pystr \<Rightarrow> pystr + int"
  str_of :: "json \<Rightarrow> pystr"
  pydantic_lax_str :: "json \<Rightarrow> pystr option"

section \<open>Python builtins on decoded values\<close>

text \<open>
  \<open>float(n)\<close> of an integer raises \<open>OverflowError\<close> when \<open>n\<close> rounds to a magnitude of
  \<open>2 ^ 1024\<close> or more.
\<close>

definition float_overflow_bound :: int where
  "float_overflow_bound = 2 ^ 1024 - 2 ^ 970"

definition py_float :: "env \<Rightarrow> json \<Rightarrow> error + pyfloat" where
  "py_float E v = (case v of
       JFloat x \<Rightarrow> Inr x
     | JInt n \<Rightarrow> (if \<bar>n\<bar> < float_overflow_bound then Inr (Fin (of_int n))
                  else Inl (Error OverflowError (ascii ''int too large to convert to float'')))
     | JBool b \<Rightarrow> Inr (Fin (if b then 1 else 0))
     | JStr s \<Rightarrow> (case float_of_str E s of Inl m \<Rightarrow> Inl (Error ValueError m)
                  | Inr x \<Rightarrow> Inr x)
     | JNull \<Rightarrow> Inl (Error TypeError
         (ascii ''float() argument must be a string or a real number, not '' @ quoted_type v))
     | JList xs \<Rightarrow> Inl (Error TypeError
         (ascii ''float() argument must be a string or a real number, not '' @ quoted_type v))
     | JDict kvs \<Rightarrow> Inl (Error TypeError
         (ascii ''float() argument must be a string or a real number, not '' @ quoted_type v)))"

text \<open>\<open>int(x)\<close> truncates a finite float towards zero.\<close>

definition py_int :: "env \<Rightarrow> json \<Rightarrow> error + int" where
  "py_int E v = (case v of
       JInt n \<Rightarrow> Inr n
     | JBool b \<Rightarrow> Inr (if b then 1 else 0)
     | JFloat x \<Rightarrow> (case x of
           Fin r \<Rightarrow> Inr (if 0 \<le> r then \<lfloor>r\<rfloor> else \<lceil>r\<rceil>)
         | NaN \<Rightarrow> Inl (Error ValueError (ascii ''cannot convert float NaN to integer''))
         | PInf \<Rightarrow> Inl (Error OverflowError (ascii ''cannot convert float infinity to integer''))
         | NInf \<Rightarrow> Inl (Error OverflowError (ascii ''cannot convert float infinity to integer'')))
     | JStr s \<Rightarrow> (case int_of_str E s of Inl m \<Rightarrow> Inl (Error ValueError m) | Inr n \<Rightarrow> Inr n)
     | JNull \<Rightarrow> Inl (Error TypeError
         (ascii ''int() argument must be a string, a bytes-like object or a real number, not ''
            @ quoted_type v))
     | JList xs \<Rightarrow> Inl (Error TypeError
         (ascii ''int() argument must be a string, a bytes-like object or a real number, not ''
            @ quoted_type v))
     | JDict kvs \<Rightarrow> Inl (Error TypeError
         (ascii ''int() argument must be a string, a bytes-like object or a real number, not ''
            @ quoted_type v)))"

text \<open>\<open>bool(v)\<close>: the truth value of a decoded value.\<close>

definition py_bool :: "json \<Rightarrow> bool" where
  "py_bool v = (case v of JNull \<Rightarrow> False | JBool b \<Rightarrow> b | JInt n \<Rightarrow> n \<noteq> 0
     | JFloat x \<Rightarrow> x \<noteq> Fin 0 | JStr s \<Rightarrow> s \<noteq> [] | JList xs \<Rightarrow> xs \<noteq> []
     | JDict kvs \<Rightarrow> kvs \<noteq> [])"

definition py_str :: "env \<Rightarrow> json \<Rightarrow> pystr" where
  "py_str E v = (case v of JStr s \<Rightarrow> s | JNull \<Rightarrow> str_of E v | JBool b \<Rightarrow> str_of E v
     | JInt n \<Rightarrow> str_of E v | JFloat x \<Rightarrow> str_of E v | JList xs \<Rightarrow> str_of E v
     | JDict kvs \<Rightarrow> str_of E v)"

text \<open>\<open>d.get(key, default)\<close> on a \<open>dict\<close>.\<close>

definition get :: "(pystr \<times> json) list \<Rightarrow> pystr \<Rightarrow> json \<Rightarrow> json" where
  "get kvs key dflt = (case map_of kvs key of None \<Rightarrow> dflt | Some v \<Rightarrow> v)"

text \<open>
  \<open>result.get(key, default)\<close> on whatever \<open>json.loads\<close> returned: only a \<open>dict\<close> has
  the method.
\<close>

definition result_get :: "json \<Rightarrow> pystr \<Rightarrow> json \<Rightarrow> error + json" where
  "result_get result key dflt = (case result of
       JDict kvs \<Rightarrow> Inr (get kvs key dflt)
     | JNull \<Rightarrow> Inl (Error AttributeError
         (quoted_type result @ ascii '' object has no attribute '' @ [39] @ ascii ''get'' @ [39]))
     | JBool b \<Rightarrow> Inl (Error AttributeError
         (quoted_type result @ ascii '' object has no attribute '' @ [39] @ ascii ''get'' @ [39]))
     | JInt n \<Rightarrow> Inl (Error AttributeError
         (quoted_type result @ ascii '' object has no attribute '' @ [39] @ ascii ''get'' @ [39]))
     | JFloat x \<Rightarrow> Inl (Error AttributeError
         (quoted_type result @ ascii '' object has no attribute '' @ [39] @ ascii ''get'' @ [39]))
     | JStr s \<Rightarrow> Inl (Error AttributeError
         (quoted_type result @ ascii '' object has no attribute '' @ [39] @ ascii ''get'' @ [39]))
     | JList xs \<Rightarrow> Inl (Error AttributeError
         (quoted_type result @ ascii '' object has no attribute '' @ [39] @ ascii ''get'' @ [39])))"

text \<open>
  \<open>for x in v\<close>: a list yields its entries, a string its characters, a \<open>dict\<close> its
  keys; nothing else is iterable.
\<close>

definition py_iter :: "json \<Rightarrow> error + json list" where
  "py_iter v = (case v of
       JList xs \<Rightarrow> Inr xs
     | JStr s \<Rightarrow> Inr (map (\<lambda>c. JStr [c]) s)
     | JDict kvs \<Rightarrow> Inr (map (\<lambda>kv. JStr (fst kv)) kvs)
     | JNull \<Rightarrow> Inl (Error TypeError (quoted_type v @ ascii '' object is not iterable''))
     | JBool b \<Rightarrow> Inl (Error TypeError (quoted_type v @ ascii '' object is not iterable''))
     | JInt n \<Rightarrow> Inl (Error TypeError (quoted_type v @ ascii '' object is not iterable''))
     | JFloat x \<Rightarrow> Inl (Error TypeError (quoted_type v @ ascii '' object is not iterable'')))"

section \<open>Extracting the JSON text from a response\<close>

text \<open>The characters \<open>str.strip()\<close> removes: those for which \<open>str.isspace\<close> holds.\<close>

definition is_space :: "nat \<Rightarrow> bool" where
  "is_space c = ((9 \<le> c \<and> c \<le> 13) \<or> (28 \<le> c \<and> c \<le> 32) \<or> c = 133 \<or> c = 160
     \<or> c = 5760 \<or> (8192 \<le> c \<and> c \<le> 8202) \<or> c = 8232 \<or> c = 8233 \<or> c = 8239
     \<or> c = 8287 \<or> c = 12288)"

definition py_strip :: "pystr \<Rightarrow> pystr" where
  "py_strip s = rev (dropWhile is_space (rev (dropWhile is_space s)))"

definition startswith :: "pystr \<Rightarrow> pystr \<Rightarrow> bool" where
  "startswith s p = (take (length p) s = p)"

definition endswith :: "pystr \<Rightarrow> pystr \<Rightarrow> bool" where
  "endswith s p = (length p \<le> length s \<and> drop (length s - length p) s = p)"

definition fence :: pystr where
  "fence = ascii ''```''"

definition fence_json :: pystr where
  "fence_json = ascii ''```json''"

text \<open>
  The first lines of every \<open>_parse_response\<close> (the same text in the four agents): the
  string that is handed to \<open>json.loads\<close>.
  \<^verbatim>\<open>
  response_text = response_text.strip()
  if response_text.startswith("```json"): response_text = response_text[7:]
  if response_text.startswith("```"):     response_text = response_text[3:]
  if response_text.endswith("```"):       response_text = response_text[:-3]
  result = json.loads(response_text.strip())
  \<close>
\<close>

definition strip_fences :: "pystr \<Rightarrow> pystr" where
  "strip_fences response_text =
     (let t0 = py_strip response_text;
          t1 = (if startswith t0 fence_json then drop 7 t0 else t0);
          t2 = (if startswith t1 fence then drop 3 t1 else t1);
          t3 = (if endswith t2 fence then take (length t2 - 3) t2 else t2)
      in py_strip t3)"

text \<open>
  The clause \<open>except (json.JSONDecodeError, ValueError, KeyError)\<close> of the parsers.
\<close>

definition parse_caught :: "exn_class \<Rightarrow> bool" where
  "parse_caught c = (c = JSONDecodeError \<or> c = ValueError \<or> c = KeyError)"

section \<open>The agents\<close>

subsection \<open>Reasoning depth\<close>

text \<open>The dictionary \<open>ReasoningDepthAgent.analyze\<close> returns.\<close>

record depth_dict =
  dd_score :: pyfloat
  dd_has_causal_analysis :: bool
  dd_has_comparative_analysis :: bool
  dd_analysis_levels :: int
  dd_depth_explanation :: pystr

definition depth_fallback :: "pystr \<Rightarrow> depth_dict" where
  "depth_fallback explanation =
     \<lparr>dd_score = Fin 0.5, dd_has_causal_analysis = False,
      dd_has_comparative_analysis = False, dd_analysis_levels = 1,
      dd_depth_explanation = explanation\<rparr>"

text \<open>
  The part of the \<open>try\<close> block of \<open>ReasoningDepthAgent._parse_response\<close> after \<open>json.loads\<close>:
  the decoded value is validated and normalised.
\<close>

definition depth_normalize :: "env \<Rightarrow> json \<Rightarrow> error + depth_dict" where
  "depth_normalize E result =
     bindE (result_get result (ascii ''score'') (JFloat (Fin 0.5))) (\<lambda>v_score.
     bindE (py_float E v_score) (\<lambda>score.
     bindE (result_get result (ascii ''has_causal_analysis'') (JBool False)) (\<lambda>v_causal.
     bindE (result_get result (ascii ''has_comparative_analysis'') (JBool False)) (\<lambda>v_comp.
     bindE (result_get result (ascii ''analysis_levels'') (JInt 1)) (\<lambda>v_levels.
     bindE (py_int E v_levels) (\<lambda>levels.
     bindE (result_get result (ascii ''depth_explanation'') (JStr [])) (\<lambda>v_expl.
     Inr \<lparr>dd_score = clamp01 score,
          dd_has_causal_analysis = py_bool v_causal,
          dd_has_comparative_analysis = py_bool v_comp,
          dd_analysis_levels = max 1 (min 5 levels),
          dd_depth_explanation = py_str E v_expl\<rparr>)))))))"

definition depth_parse_body :: "env \<Rightarrow> pystr \<Rightarrow> error + depth_dict" where
  "depth_parse_body E response_text =
     bindE (json_loads E (strip_fences response_text)) (depth_normalize E)"

definition depth_parse_response :: "env \<Rightarrow> pystr \<Rightarrow> error + depth_dict" where
  "depth_parse_response E response_text =
     (case depth_parse_body E response_text of
        Inr r \<Rightarrow> Inr r
      | Inl (Error c m) \<Rightarrow>
          if parse_caught c
          then Inr (depth_fallback (ascii ''Failed to parse analysis result: '' @ m))
          else Inl (Error c m))"

text \<open>
  \<open>ReasoningDepthAgent.analyze\<close>: the invocation and the parsing stand under
  \<open>except Exception\<close>.
\<close>

definition depth_analyze :: "env \<Rightarrow> pystr \<Rightarrow> depth_dict" where
  "depth_analyze E article_text =
     (case bindE (llm_invoke E ReasoningDepthAgent article_text) (depth_parse_response E) of
        Inr r \<Rightarrow> r
      | Inl (Error c m) \<Rightarrow> depth_fallback (ascii ''Error during analysis: '' @ m))"

subsection \<open>Argument structure\<close>

text \<open>
  An entry of \<open>argument_components\<close> as \<open>_parse_components\<close> builds it: the three
  values are whatever the model sent.
\<close>

record component_dict =
  cd_type :: json
  cd_content :: json
  cd_location :: json

record structure_dict =
  sd_score :: pyfloat
  sd_has_clear_structure :: bool
  sd_paragraph_coherence :: pyfloat
  sd_argument_components :: "component_dict list"
  sd_structure_explanation :: pystr

definition structure_fallback :: "pystr \<Rightarrow> structure_dict" where
  "structure_fallback explanation =
     \<lparr>sd_score = Fin 0.5, sd_has_clear_structure = False,
      sd_paragraph_coherence = Fin 0.5, sd_argument_components = [],
      sd_structure_explanation = explanation\<rparr>"

text \<open>The loop body of \<open>_parse_components\<close>: an entry that is no \<open>dict\<close> is skipped.\<close>

fun components_loop :: "json list \<Rightarrow> component_dict list" where
  "components_loop [] = []"
| "components_loop (JDict c # rest) =
     \<lparr>cd_type = get c (ascii ''type'') (JStr (ascii ''unknown'')),
      cd_content = get c (ascii ''content'') (JStr []),
      cd_location = get c (ascii ''location'') (JStr [])\<rparr> # components_loop rest"
| "components_loop (other # rest) = components_loop rest"

definition parse_components :: "json \<Rightarrow> error + component_dict list" where
  "parse_components components_data =
     bindE (py_iter components_data) (\<lambda>entries. Inr (components_loop entries))"

text \<open>
  The part of the \<open>try\<close> block of \<open>ArgumentStructureAgent._parse_response\<close> after \<open>json.loads\<close>:
  the decoded value is validated and normalised.
\<close>

definition structure_normalize :: "env \<Rightarrow> json \<Rightarrow> error + structure_dict" where
  "structure_normalize E result =
     bindE (result_get result (ascii ''score'') (JFloat (Fin 0.5))) (\<lambda>v_score.
     bindE (py_float E v_score) (\<lambda>score.
     bindE (result_get result (ascii ''has_clear_structure'') (JBool False)) (\<lambda>v_clear.
     bindE (result_get result (ascii ''paragraph_coherence'') (JFloat (Fin 0.5))) (\<lambda>v_coh.
     bindE (py_float E v_coh) (\<lambda>coherence.
     bindE (result_get result (ascii ''argument_components'') (JList [])) (\<lambda>v_comps.
     bindE (parse_components v_comps) (\<lambda>components.
     bindE (result_get result (ascii ''structure_explanation'') (JStr [])) (\<lambda>v_expl.
     Inr \<lparr>sd_score = clamp01 score,
          sd_has_clear_structure = py_bool v_clear,
          sd_paragraph_coherence = clamp01 coherence,
          sd_argument_components = components,
          sd_structure_explanation = py_str E v_expl\<rparr>))))))))"

definition structure_parse_body :: "env \<Rightarrow> pystr \<Rightarrow> error + structure_dict" where
  "structure_parse_body E response_text =
     bindE (json_loads E (strip_fences response_text)) (structure_normalize E)"

definition structure_parse_response :: "env \<Rightarrow> pystr \<Rightarrow> error + structure_dict" where
  "structure_parse_response E response_text =
     (case structure_parse_body E response_text of
        Inr r \<Rightarrow> Inr r
      | Inl (Error c m) \<Rightarrow>
          if parse_caught c
          then Inr (structure_fallback (ascii ''Failed to parse analysis result: '' @ m))
          else Inl (Error c m))"

definition structure_analyze :: "env \<Rightarrow> pystr \<Rightarrow> structure_dict" where
  "structure_analyze E article_text =
     (case bindE (llm_invoke E ArgumentStructureAgent article_text)
             (structure_parse_response E) of
        Inr r \<Rightarrow> r
      | Inl (Error c m) \<Rightarrow> structure_fallback (ascii ''Error during analysis: '' @ m))"

subsection \<open>Logical fallacies\<close>

text \<open>An entry of \<open>fallacies\<close> as the parser builds it.\<close>

record fallacy_entry =
  fe_type :: json
  fe_location :: json
  fe_description :: json
  fe_severity :: pyfloat

record fallacy_dict =
  fd_score :: pyfloat
  fd_fallacies :: "fallacy_entry list"
  fd_fallacy_explanation :: pystr

definition fallacy_fallback :: "pystr \<Rightarrow> fallacy_dict" where
  "fallacy_fallback explanation =
     \<lparr>fd_score = Fin 0.7, fd_fallacies = [], fd_fallacy_explanation = explanation\<rparr>"

text \<open>
  The loop \<open>for f in result.get("fallacies", [])\<close>: an entry that is no \<open>dict\<close> is
  skipped, the severity of a \<open>dict\<close> entry goes through \<open>float\<close> and is clamped.
\<close>

fun fallacies_loop :: "env \<Rightarrow> json list \<Rightarrow> error + fallacy_entry list" where
  "fallacies_loop E [] = Inr []"
| "fallacies_loop E (JDict f # rest) =
     bindE (py_float E (get f (ascii ''severity'') (JFloat (Fin 0.5)))) (\<lambda>severity.
     bindE (fallacies_loop E rest) (\<lambda>fallacies.
     Inr (\<lparr>fe_type = get f (ascii ''type'') (JStr (ascii ''overgeneralization'')),
           fe_location = get f (ascii ''location'') (JStr []),
           fe_description = get f (ascii ''description'') (JStr []),
           fe_severity = clamp01 severity\<rparr> # fallacies)))"
| "fallacies_loop E (other # rest) = fallacies_loop E rest"

text \<open>
  \<^verbatim>\<open>
  if fallacies:
      avg_severity = sum(f["severity"] for f in fallacies) / len(fallacies)
      score = max(0.0, 1.0 - avg_severity)
  else:
      score = 1.0
  \<close>
\<close>

definition derived_score :: "fallacy_entry list \<Rightarrow> pyfloat" where
  "derived_score fallacies =
     (if fallacies \<noteq> []
      then py_max (Fin 0)
             (pf_sub (Fin 1) (pf_div_len (pf_sum (map fe_severity fallacies)) (length fallacies)))
      else Fin 1)"

text \<open>
  The part of the \<open>try\<close> block of \<open>LogicalFallacyAgent._parse_response\<close> after \<open>json.loads\<close>:
  the decoded value is validated and normalised.
\<close>

definition fallacy_normalize :: "env \<Rightarrow> json \<Rightarrow> error + fallacy_dict" where
  "fallacy_normalize E result =
     bindE (result_get result (ascii ''fallacies'') (JList [])) (\<lambda>v_fallacies.
     bindE (py_iter v_fallacies) (\<lambda>entries.
     bindE (fallacies_loop E entries) (\<lambda>fallacies.
     bindE (result_get result (ascii ''score'') (JFloat (derived_score fallacies))) (\<lambda>v_score.
     bindE (py_float E v_score) (\<lambda>score.
     bindE (result_get result (ascii ''fallacy_explanation'') (JStr [])) (\<lambda>v_expl.
     Inr \<lparr>fd_score = clamp01 score,
          fd_fallacies = fallacies,
          fd_fallacy_explanation = py_str E v_expl\<rparr>))))))"

definition fallacy_parse_body :: "env \<Rightarrow> pystr \<Rightarrow> error + fallacy_dict" where
  "fallacy_parse_body E response_text =
     bindE (json_loads E (strip_fences response_text)) (fallacy_normalize E)"

definition fallacy_parse_response :: "env \<Rightarrow> pystr \<Rightarrow> error + fallacy_dict" where
  "fallacy_parse_response E response_text =
     (case fallacy_parse_body E response_text of
        Inr r \<Rightarrow> Inr r
      | Inl (Error c m) \<Rightarrow>
          if parse_caught c
          then Inr (fallacy_fallback (ascii ''Failed to parse analysis result: '' @ m))
          else Inl (Error c m))"

definition fallacy_analyze :: "env \<Rightarrow> pystr \<Rightarrow> fallacy_dict" where
  "fallacy_analyze E article_text =
     (case bindE (llm_invoke E LogicalFallacyAgent article_text) (fallacy_parse_response E) of
        Inr r \<Rightarrow> r
      | Inl (Error c m) \<Rightarrow> fallacy_fallback (ascii ''Error during analysis: '' @ m))"

subsection \<open>Consistency\<close>

record consistency_dict =
  kd_score :: pyfloat
  kd_contradictions :: "pystr list"
  kd_consistency_explanation :: pystr

definition consistency_fallback :: "pystr \<Rightarrow> consistency_dict" where
  "consistency_fallback explanation =
     \<lparr>kd_score = Fin 0.7, kd_contradictions = [],
      kd_consistency_explanation = explanation\<rparr>"

text \<open>
  \<^verbatim>\<open>
  contradictions = result.get("contradictions", [])
  if not isinstance(contradictions, list):
      contradictions = []
  \<close>
\<close>

definition contradictions_list :: "json \<Rightarrow> json list" where
  "contradictions_list v = (case v of JList xs \<Rightarrow> xs | JNull \<Rightarrow> [] | JBool b \<Rightarrow> []
     | JInt n \<Rightarrow> [] | JFloat x \<Rightarrow> [] | JStr s \<Rightarrow> [] | JDict kvs \<Rightarrow> [])"

text \<open>
  The part of the \<open>try\<close> block of \<open>ConsistencyAgent._parse_response\<close> after \<open>json.loads\<close>:
  the decoded value is validated and normalised.
\<close>

definition consistency_normalize :: "env \<Rightarrow> json \<Rightarrow> error + consistency_dict" where
  "consistency_normalize E result =
     bindE (result_get result (ascii ''contradictions'') (JList [])) (\<lambda>v_contra.
     bindE (result_get result (ascii ''score'') (JFloat (Fin 0.7))) (\<lambda>v_score.
     bindE (py_float E v_score) (\<lambda>score.
     bindE (result_get result (ascii ''consistency_explanation'') (JStr [])) (\<lambda>v_expl.
     Inr \<lparr>kd_score = clamp01 score,
          kd_contradictions = map (py_str E) (contradictions_list v_contra),
          kd_consistency_explanation = py_str E v_expl\<rparr>))))"

definition consistency_parse_body :: "env \<Rightarrow> pystr \<Rightarrow> error + consistency_dict" where
  "consistency_parse_body E response_text =
     bindE (json_loads E (strip_fences response_text)) (consistency_normalize E)"

definition consistency_parse_response :: "env \<Rightarrow> pystr \<Rightarrow> error + consistency_dict" where
  "consistency_parse_response E response_text =
     (case consistency_parse_body E response_text of
        Inr r \<Rightarrow> Inr r
      | Inl (Error c m) \<Rightarrow>
          if parse_caught c
          then Inr (consistency_fallback (ascii ''Failed to parse analysis result: '' @ m))
          else Inl (Error c m))"

definition consistency_analyze :: "env \<Rightarrow> pystr \<Rightarrow> consistency_dict" where
  "consistency_analyze E article_text =
     (case bindE (llm_invoke E ConsistencyAgent article_text) (consistency_parse_response E) of
        Inr r \<Rightarrow> r
      | Inl (Error c m) \<Rightarrow> consistency_fallback (ascii ''Error during analysis: '' @ m))"

section \<open>The texts of the report\<close>

text \<open>
  \<open>str(n)\<close> of an integer, for the f-strings: the decimal digits, with a minus sign for a
  negative number.
\<close>

fun str_nat :: "nat \<Rightarrow> pystr" where
  "str_nat n = (if n < 10 then [48 + n] else str_nat (n div 10) @ [48 + n mod 10])"

definition str_int :: "int \<Rightarrow> pystr" where
  "str_int i = (if i < 0 then 45 # str_nat (nat (- i)) else str_nat (nat i))"

text \<open>
  The string literals of the evaluator, as their code points (the source file is UTF-8,
  the texts are Chinese); each is given with the line of
  \<open>reasoning_logic_evaluator.py\<close> it stands on and a translation.
\<close>

text \<open>Line 164, a strength: "contains a clear causal analysis".\<close>

definition strength_causal :: pystr where
  "strength_causal =
     [21253, 21547, 28165, 26224, 30340, 22240, 26524, 20998, 26512]"

text \<open>Line 166, a strength: "made an effective comparative analysis".\<close>

definition strength_comparative :: pystr where
  "strength_comparative =
     [36827, 34892, 20102, 26377, 25928, 30340, 27604, 36739, 20998, 26512]"

text \<open>Line 168,
      a strength: "has an in-depth analysis of \<open>n\<close> levels" (an f-string).\<close>

definition strength_levels :: "int \<Rightarrow> pystr" where
  "strength_levels n =
     [20855, 26377] @ str_int n @ [23618, 27425, 30340, 28145, 20837, 20998, 26512]"

text \<open>Line 171, a weakness: "lacks causal analysis".\<close>

definition weakness_causal :: pystr where
  "weakness_causal =
     [32570, 20047, 22240, 26524, 20851, 31995, 20998, 26512]"

text \<open>Line 173, a weakness: "lacks comparative analysis".\<close>

definition weakness_comparative :: pystr where
  "weakness_comparative =
     [32570, 23569, 27604, 36739, 20998, 26512]"

text \<open>Line 175, a weakness: "the analysis levels are not deep enough".\<close>

definition weakness_levels :: pystr where
  "weakness_levels =
     [20998, 26512, 23618, 27425, 19981, 22815, 28145, 20837]"

text \<open>Line 180, a strength: "the argument structure is clear and orderly".\<close>

definition strength_structure :: pystr where
  "strength_structure =
     [35770, 35777, 32467, 26500, 28165, 26224, 26377, 24207]"

text \<open>Line 182, a strength: "the paragraphs connect naturally and smoothly".\<close>

definition strength_coherence :: pystr where
  "strength_coherence =
     [27573, 33853, 34900, 25509, 33258, 28982, 27969, 30021]"

text \<open>Line 185, a weakness: "the argument structure is not clear enough".\<close>

definition weakness_structure :: pystr where
  "weakness_structure =
     [35770, 35777, 32467, 26500, 19981, 22815, 28165, 26224]"

text \<open>Line 187, a weakness: "the connection of the paragraphs needs improvement".\<close>

definition weakness_coherence :: pystr where
  "weakness_coherence =
     [27573, 33853, 34900, 25509, 26377, 24453, 25913, 36827]"

text \<open>Line 191, a strength: "internally consistent, no obvious contradiction".\<close>

definition strength_consistency :: pystr where
  "strength_consistency =
     [20869, 37096, 36923, 36753, 19968, 33268, 65292, 26080, 26126, 26174, 30683, 30462]"

text \<open>Line 193,
      a weakness: "there are \<open>n\<close> internal contradictions" (an f-string).\<close>

definition weakness_contradictions :: "nat \<Rightarrow> pystr" where
  "weakness_contradictions n =
     [23384, 22312] @ str_nat n @ [22788, 20869, 37096, 30683, 30462]"

text \<open>Line 197, a strength: "rigorous argument, no obvious logical fallacy".\<close>

definition strength_fallacies :: pystr where
  "strength_fallacies =
     [35770, 35777, 20005, 35880, 65292, 26080, 26126, 26174, 36923, 36753, 35884, 35823]"

text \<open>Line 199,
      a weakness: "detected \<open>n\<close> logical fallacies" (an f-string).\<close>

definition weakness_fallacies :: "nat \<Rightarrow> pystr" where
  "weakness_fallacies n =
     [26816, 27979, 21040] @ str_nat n @ [20010, 36923, 36753, 35884, 35823]"

text \<open>Line 216, a recommendation: add causal analysis.\<close>

definition recommend_causal :: pystr where
  "recommend_causal =
     [22686, 21152, 22240, 26524, 20851, 31995, 20998, 26512, 65292, 25506, 35752, 29616,
      35937, 32972, 21518, 30340, 21407, 22240, 21644, 24433, 21709]"

text \<open>Line 218, a recommendation: add comparative analysis.\<close>

definition recommend_comparative :: pystr where
  "recommend_comparative =
     [21152, 20837, 27604, 36739, 20998, 26512, 65292, 22914, 21382, 21490, 23545, 27604,
      25110, 21516, 34892, 19994, 23545, 27604]"

text \<open>Line 220, a recommendation: deepen the levels of analysis.\<close>

definition recommend_levels :: pystr where
  "recommend_levels =
     [28145, 21270, 20998, 26512, 23618, 27425, 65292, 20174, 34920, 38754, 29616, 35937,
      28145, 20837, 21040, 28145, 23618, 21407, 22240, 21644, 28508, 22312, 24433, 21709]"

text \<open>Line 225, a recommendation: improve the structure of the article.\<close>

definition recommend_structure :: pystr where
  "recommend_structure =
     [20248, 21270, 25991, 31456, 32467, 26500, 65292, 30830, 20445, 35770, 28857, 12289,
      35770, 25454, 12289, 32467, 35770, 30340, 36923, 36753, 39034, 24207, 28165, 26224]"

text \<open>Line 227, a recommendation: improve the connection between paragraphs.\<close>

definition recommend_coherence :: pystr where
  "recommend_coherence =
     [25913, 21892, 27573, 33853, 38388, 30340, 34900, 25509, 65292, 20351, 29992, 36807,
      28193, 21477, 20351, 35770, 36848, 26356, 27969, 30021]"

text \<open>Line 231, a recommendation: resolve the internal contradictions.\<close>

definition recommend_contradictions :: pystr where
  "recommend_contradictions =
     [26816, 26597, 24182, 35299, 20915, 20869, 37096, 30683, 30462, 65292, 30830, 20445,
      35770, 36848, 21069, 21518, 19968, 33268]"

text \<open>Line 236, the text before the description: "fix the logical fallacy:".\<close>

definition recommend_fallacy_prefix :: pystr where
  "recommend_fallacy_prefix =
     [20462, 27491, 36923, 36753, 35884, 35823, 65306]"

section \<open>The data models\<close>

datatype LogicalFallacyType =
    OVERGENERALIZATION | CAUSAL_REVERSAL | FALSE_DILEMMA | SLIPPERY_SLOPE | AD_HOMINEM
  | CIRCULAR_REASONING | STRAWMAN | HASTY_GENERALIZATION | POST_HOC

record LogicalFallacy =
  fallacy_type :: LogicalFallacyType
  fallacy_location :: pystr
  fallacy_description :: pystr
  fallacy_severity :: real

record ArgumentComponent =
  ac_type :: pystr
  ac_content :: pystr
  ac_location :: pystr

record ReasoningDepthResult =
  rd_score :: real
  rd_has_causal_analysis :: bool
  rd_has_comparative_analysis :: bool
  rd_analysis_levels :: int
  rd_depth_explanation :: pystr

record ArgumentStructureResult =
  as_score :: real
  as_has_clear_structure :: bool
  as_paragraph_coherence :: real
  as_argument_components :: "ArgumentComponent list"
  as_structure_explanation :: pystr

record ConsistencyResult =
  cs_score :: real
  cs_contradictions :: "pystr list"
  cs_consistency_explanation :: pystr

record LogicalFallacyResult =
  lf_score :: real
  lf_fallacies :: "LogicalFallacy list"
  lf_fallacy_explanation :: pystr

record ReasoningLogicEvaluation =
  article_title :: "pystr option"
  overall_score :: real
  reasoning_depth :: ReasoningDepthResult
  argument_structure :: ArgumentStructureResult
  consistency :: ConsistencyResult
  logical_fallacies :: LogicalFallacyResult
  strengths :: "pystr list"
  weaknesses :: "pystr list"
  recommendations :: "pystr list"

subsection \<open>Validation at construction\<close>

text \<open>
  Constructing a model validates its fields and raises \<open>ValidationError\<close> when one
  fails. The message of that error is shortened to the name of the model.

  A field \<open>float\<close> with \<open>ge=0.0, le=1.0\<close>: both comparisons must hold, which excludes
  \<open>NaN\<close> and the infinities.
\<close>

definition validate_unit :: "string \<Rightarrow> pyfloat \<Rightarrow> error + real" where
  "validate_unit model x = (case x of
       Fin r \<Rightarrow> (if 0 \<le> r \<and> r \<le> 1 then Inr r
                 else Inl (Error ValidationError (ascii model)))
     | PInf \<Rightarrow> Inl (Error ValidationError (ascii model))
     | NInf \<Rightarrow> Inl (Error ValidationError (ascii model))
     | NaN \<Rightarrow> Inl (Error ValidationError (ascii model)))"

text \<open>A field \<open>str\<close>: a string is taken as it is, \<open>None\<close> is rejected.\<close>

definition validate_str :: "env \<Rightarrow> string \<Rightarrow> json \<Rightarrow> error + pystr" where
  "validate_str E model v = (case v of
       JStr s \<Rightarrow> Inr s
     | JNull \<Rightarrow> Inl (Error ValidationError (ascii model))
     | JBool b \<Rightarrow> (case pydantic_lax_str E v of Some s \<Rightarrow> Inr s
                   | None \<Rightarrow> Inl (Error ValidationError (ascii model)))
     | JInt n \<Rightarrow> (case pydantic_lax_str E v of Some s \<Rightarrow> Inr s
                   | None \<Rightarrow> Inl (Error ValidationError (ascii model)))
     | JFloat x \<Rightarrow> (case pydantic_lax_str E v of Some s \<Rightarrow> Inr s
                   | None \<Rightarrow> Inl (Error ValidationError (ascii model)))
     | JList xs \<Rightarrow> (case pydantic_lax_str E v of Some s \<Rightarrow> Inr s
                   | None \<Rightarrow> Inl (Error ValidationError (ascii model)))
     | JDict kvs \<Rightarrow> (case pydantic_lax_str E v of Some s \<Rightarrow> Inr s
                   | None \<Rightarrow> Inl (Error ValidationError (ascii model))))"

text \<open>
  A field of the enumeration \<open>LogicalFallacyType(str, Enum)\<close>: only the nine values
  of the enumeration are accepted.
\<close>

definition fallacy_type_of_str :: "pystr \<Rightarrow> LogicalFallacyType option" where
  "fallacy_type_of_str s =
     (if s = ascii ''overgeneralization'' then Some OVERGENERALIZATION
      else if s = ascii ''causal_reversal'' then Some CAUSAL_REVERSAL
      else if s = ascii ''false_dilemma'' then Some FALSE_DILEMMA
      else if s = ascii ''slippery_slope'' then Some SLIPPERY_SLOPE
      else if s = ascii ''ad_hominem'' then Some AD_HOMINEM
      else if s = ascii ''circular_reasoning'' then Some CIRCULAR_REASONING
      else if s = ascii ''strawman'' then Some STRAWMAN
      else if s = ascii ''hasty_generalization'' then Some HASTY_GENERALIZATION
      else if s = ascii ''post_hoc'' then Some POST_HOC
      else None)"

definition validate_fallacy_type :: "json \<Rightarrow> error + LogicalFallacyType" where
  "validate_fallacy_type v = (case v of
       JStr s \<Rightarrow> (case fallacy_type_of_str s of Some t \<Rightarrow> Inr t
                  | None \<Rightarrow> Inl (Error ValidationError (ascii ''LogicalFallacy'')))
     | JNull \<Rightarrow> Inl (Error ValidationError (ascii ''LogicalFallacy''))
     | JBool b \<Rightarrow> Inl (Error ValidationError (ascii ''LogicalFallacy''))
     | JInt n \<Rightarrow> Inl (Error ValidationError (ascii ''LogicalFallacy''))
     | JFloat x \<Rightarrow> Inl (Error ValidationError (ascii ''LogicalFallacy''))
     | JList xs \<Rightarrow> Inl (Error ValidationError (ascii ''LogicalFallacy''))
     | JDict kvs \<Rightarrow> Inl (Error ValidationError (ascii ''LogicalFallacy'')))"

text \<open>\<open>LogicalFallacy(**f)\<close>\<close>

definition new_LogicalFallacy :: "env \<Rightarrow> fallacy_entry \<Rightarrow> error + LogicalFallacy" where
  "new_LogicalFallacy E f =
     bindE (validate_fallacy_type (fe_type f)) (\<lambda>t.
     bindE (validate_str E ''LogicalFallacy'' (fe_location f)) (\<lambda>location.
     bindE (validate_str E ''LogicalFallacy'' (fe_description f)) (\<lambda>description.
     bindE (validate_unit ''LogicalFallacy'' (fe_severity f)) (\<lambda>severity.
     Inr \<lparr>fallacy_type = t, fallacy_location = location,
          fallacy_description = description, fallacy_severity = severity\<rparr>))))"

text \<open>\<open>ArgumentComponent(**comp)\<close>\<close>

definition new_ArgumentComponent :: "env \<Rightarrow> component_dict \<Rightarrow> error + ArgumentComponent"
  where
  "new_ArgumentComponent E c =
     bindE (validate_str E ''ArgumentComponent'' (cd_type c)) (\<lambda>t.
     bindE (validate_str E ''ArgumentComponent'' (cd_content c)) (\<lambda>content.
     bindE (validate_str E ''ArgumentComponent'' (cd_location c)) (\<lambda>location.
     Inr \<lparr>ac_type = t, ac_content = content, ac_location = location\<rparr>)))"

text \<open>\<open>ReasoningDepthResult(**reasoning_depth_data)\<close>\<close>

definition new_ReasoningDepthResult :: "depth_dict \<Rightarrow> error + ReasoningDepthResult" where
  "new_ReasoningDepthResult d =
     bindE (validate_unit ''ReasoningDepthResult'' (dd_score d)) (\<lambda>score.
     Inr \<lparr>rd_score = score,
          rd_has_causal_analysis = dd_has_causal_analysis d,
          rd_has_comparative_analysis = dd_has_comparative_analysis d,
          rd_analysis_levels = dd_analysis_levels d,
          rd_depth_explanation = dd_depth_explanation d\<rparr>)"

text \<open>\<open>ArgumentStructureResult(**argument_structure_data, argument_components=components)\<close>\<close>

definition new_ArgumentStructureResult ::
  "structure_dict \<Rightarrow> ArgumentComponent list \<Rightarrow> error + ArgumentStructureResult" where
  "new_ArgumentStructureResult d components =
     bindE (validate_unit ''ArgumentStructureResult'' (sd_score d)) (\<lambda>score.
     bindE (validate_unit ''ArgumentStructureResult'' (sd_paragraph_coherence d)) (\<lambda>coherence.
     Inr \<lparr>as_score = score,
          as_has_clear_structure = sd_has_clear_structure d,
          as_paragraph_coherence = coherence,
          as_argument_components = components,
          as_structure_explanation = sd_structure_explanation d\<rparr>))"

text \<open>\<open>LogicalFallacyResult(**logical_fallacy_data, fallacies=fallacies)\<close>\<close>

definition new_LogicalFallacyResult ::
  "fallacy_dict \<Rightarrow> LogicalFallacy list \<Rightarrow> error + LogicalFallacyResult" where
  "new_LogicalFallacyResult d fallacies =
     bindE (validate_unit ''LogicalFallacyResult'' (fd_score d)) (\<lambda>score.
     Inr \<lparr>lf_score = score, lf_fallacies = fallacies,
          lf_fallacy_explanation = fd_fallacy_explanation d\<rparr>)"

text \<open>\<open>ConsistencyResult(**consistency_data)\<close>\<close>

definition new_ConsistencyResult :: "consistency_dict \<Rightarrow> error + ConsistencyResult" where
  "new_ConsistencyResult d =
     bindE (validate_unit ''ConsistencyResult'' (kd_score d)) (\<lambda>score.
     Inr \<lparr>cs_score = score, cs_contradictions = kd_contradictions d,
          cs_consistency_explanation = kd_consistency_explanation d\<rparr>)"

section \<open>The evaluator\<close>

text \<open>
  \<open>round(x, 3)\<close>: the nearest multiple of \<open>1/1000\<close>, a tie going to the even one.
\<close>

definition round_half_even :: "real \<Rightarrow> int" where
  "round_half_even x =
     (let f = \<lfloor>x\<rfloor>; d = x - of_int f
      in if d < 1 / 2 then f else if 1 / 2 < d then f + 1 else if even f then f else f + 1)"

definition py_round3 :: "real \<Rightarrow> real" where
  "py_round3 x = of_int (round_half_even (x * 1000)) / 1000"

text \<open>\<open>_calculate_overall_score\<close>, with the weights of its dictionary.\<close>

definition calculate_overall_score ::
  "ReasoningDepthResult \<Rightarrow> ArgumentStructureResult \<Rightarrow> ConsistencyResult
     \<Rightarrow> LogicalFallacyResult \<Rightarrow> real" where
  "calculate_overall_score rd ast cs lf =
     (let overall = rd_score rd * 0.30 + as_score ast * 0.30 + cs_score cs * 0.25
                      + lf_score lf * 0.15
      in py_round3 overall)"

text \<open>
  \<open>_identify_strengths_weaknesses\<close> appends to the two lists \<open>strengths\<close> and
  \<open>weaknesses\<close> in four consecutive sections, one for each dimension. Each section is
  a function of the pair of lists.
\<close>

definition sw_reasoning_depth ::
  "ReasoningDepthResult \<Rightarrow> pystr list \<times> pystr list \<Rightarrow> pystr list \<times> pystr list" where
  "sw_reasoning_depth rd sw =
     (if 0.7 \<le> rd_score rd
      then (fst sw
              @ (if rd_has_causal_analysis rd then [strength_causal] else [])
              @ (if rd_has_comparative_analysis rd then [strength_comparative] else [])
              @ (if 3 \<le> rd_analysis_levels rd then [strength_levels (rd_analysis_levels rd)]
                 else []),
            snd sw)
      else (fst sw,
            snd sw
              @ (if \<not> rd_has_causal_analysis rd then [weakness_causal] else [])
              @ (if \<not> rd_has_comparative_analysis rd then [weakness_comparative] else [])
              @ (if rd_analysis_levels rd < 2 then [weakness_levels] else [])))"

definition sw_argument_structure ::
  "ArgumentStructureResult \<Rightarrow> pystr list \<times> pystr list \<Rightarrow> pystr list \<times> pystr list" where
  "sw_argument_structure ast sw =
     (if 0.7 \<le> as_score ast
      then (fst sw
              @ (if as_has_clear_structure ast then [strength_structure] else [])
              @ (if 0.7 \<le> as_paragraph_coherence ast then [strength_coherence] else []),
            snd sw)
      else (fst sw,
            snd sw
              @ (if \<not> as_has_clear_structure ast then [weakness_structure] else [])
              @ (if as_paragraph_coherence ast < 0.6 then [weakness_coherence] else [])))"

definition sw_consistency ::
  "ConsistencyResult \<Rightarrow> pystr list \<times> pystr list \<Rightarrow> pystr list \<times> pystr list" where
  "sw_consistency cs sw =
     (if 0.8 \<le> cs_score cs then (fst sw @ [strength_consistency], snd sw)
      else if cs_contradictions cs \<noteq> []
      then (fst sw, snd sw @ [weakness_contradictions (length (cs_contradictions cs))])
      else sw)"

definition sw_logical_fallacies ::
  "LogicalFallacyResult \<Rightarrow> pystr list \<times> pystr list \<Rightarrow> pystr list \<times> pystr list" where
  "sw_logical_fallacies lf sw =
     (if 0.8 \<le> lf_score lf then (fst sw @ [strength_fallacies], snd sw)
      else if lf_fallacies lf \<noteq> []
      then (fst sw, snd sw @ [weakness_fallacies (length (lf_fallacies lf))])
      else sw)"

definition identify_strengths_weaknesses ::
  "ReasoningDepthResult \<Rightarrow> ArgumentStructureResult \<Rightarrow> ConsistencyResult
     \<Rightarrow> LogicalFallacyResult \<Rightarrow> pystr list \<times> pystr list" where
  "identify_strengths_weaknesses rd ast cs lf =
     sw_logical_fallacies lf (sw_consistency cs (sw_argument_structure ast
       (sw_reasoning_depth rd ([], []))))"

text \<open>
  \<open>_generate_recommendations\<close>, in the order of its appends. The last section is
  \<^verbatim>\<open>
  if logical_fallacies.fallacies:
      for fallacy in logical_fallacies.fallacies[:2]:
          recommendations.append(f"...{fallacy.description}")
  \<close>
\<close>

definition recommend_fallacy :: "LogicalFallacy \<Rightarrow> pystr" where
  "recommend_fallacy fallacy = recommend_fallacy_prefix @ fallacy_description fallacy"

definition generate_recommendations ::
  "ReasoningDepthResult \<Rightarrow> ArgumentStructureResult \<Rightarrow> ConsistencyResult
     \<Rightarrow> LogicalFallacyResult \<Rightarrow> pystr list" where
  "generate_recommendations rd ast cs lf =
     (if rd_score rd < 0.7
      then (if \<not> rd_has_causal_analysis rd then [recommend_causal] else [])
         @ (if \<not> rd_has_comparative_analysis rd then [recommend_comparative] else [])
         @ (if rd_analysis_levels rd < 2 then [recommend_levels] else [])
      else [])
     @ (if as_score ast < 0.7
        then (if \<not> as_has_clear_structure ast then [recommend_structure] else [])
           @ (if as_paragraph_coherence ast < 0.6 then [recommend_coherence] else [])
        else [])
     @ (if cs_score cs < 0.8 \<and> cs_contradictions cs \<noteq> [] then [recommend_contradictions]
        else [])
     @ (if lf_fallacies lf \<noteq> [] then map recommend_fallacy (take 2 (lf_fallacies lf))
        else [])"

text \<open>
  \<open>ReasoningLogicEvaluation(...)\<close>: the field \<open>overall_score\<close> is declared with
  \<open>ge=0.0, le=1.0\<close>.
\<close>

definition new_ReasoningLogicEvaluation ::
  "pystr option \<Rightarrow> real \<Rightarrow> ReasoningDepthResult \<Rightarrow> ArgumentStructureResult
     \<Rightarrow> ConsistencyResult \<Rightarrow> LogicalFallacyResult \<Rightarrow> pystr list \<Rightarrow> pystr list
     \<Rightarrow> pystr list \<Rightarrow> error + ReasoningLogicEvaluation" where
  "new_ReasoningLogicEvaluation title overall rd ast cs lf ss ws rs =
     bindE (validate_unit ''ReasoningLogicEvaluation'' (Fin overall)) (\<lambda>score.
     Inr \<lparr>article_title = title, overall_score = score, reasoning_depth = rd,
          argument_structure = ast, consistency = cs, logical_fallacies = lf,
          strengths = ss, weaknesses = ws, recommendations = rs\<rparr>)"

text \<open>
  \<open>ReasoningLogicEvaluator.evaluate\<close>. The agents run in the order of the source and
  each dictionary is turned into its model before the next agent runs; an exception
  of a constructor is not handled and leaves \<open>evaluate\<close>. The \<open>print\<close> calls are left
  out.
\<close>

definition evaluate :: "env \<Rightarrow> pystr \<Rightarrow> pystr option \<Rightarrow> error + ReasoningLogicEvaluation"
  where
  "evaluate E article_text title =
     (let reasoning_depth_data = depth_analyze E article_text in
      bindE (new_ReasoningDepthResult reasoning_depth_data) (\<lambda>rd.
      let argument_structure_data = structure_analyze E article_text in
      bindE (mapE (new_ArgumentComponent E) (sd_argument_components argument_structure_data))
        (\<lambda>components.
      bindE (new_ArgumentStructureResult argument_structure_data components) (\<lambda>ast.
      let logical_fallacy_data = fallacy_analyze E article_text in
      bindE (mapE (new_LogicalFallacy E) (fd_fallacies logical_fallacy_data)) (\<lambda>fallacies.
      bindE (new_LogicalFallacyResult logical_fallacy_data fallacies) (\<lambda>lf.
      let consistency_data = consistency_analyze E article_text in
      bindE (new_ConsistencyResult consistency_data) (\<lambda>cs.
      let overall = calculate_overall_score rd ast cs lf;
          sw = identify_strengths_weaknesses rd ast cs lf;
          rs = generate_recommendations rd ast cs lf
      in new_ReasoningLogicEvaluation title overall rd ast cs lf (fst sw) (snd sw) rs)))))))"

section \<open>Auxiliary notions for the properties\<close>

text \<open>\<open>isinstance(v, dict)\<close>\<close>

definition is_dict :: "json \<Rightarrow> bool" where
  "is_dict v = (case v of JDict kvs \<Rightarrow> True | JNull \<Rightarrow> False | JBool b \<Rightarrow> False
     | JInt n \<Rightarrow> False | JFloat x \<Rightarrow> False | JStr s \<Rightarrow> False | JList xs \<Rightarrow> False)"

text \<open>
  An environment for the examples: the capability answers agent \<open>a\<close> with
  \<open>responses a\<close>, \<open>json.loads\<close> is \<open>decoder\<close>. The examples apply \<open>float\<close> and \<open>int\<close>
  to no numeric string, \<open>str\<close> to strings only, and put no value other than a string
  or \<open>None\<close> into a field \<open>str\<close>.
\<close>

definition scripted_env :: "(agent \<Rightarrow> error + pystr) \<Rightarrow> (pystr \<Rightarrow> error + json) \<Rightarrow> env" where
  "scripted_env responses decoder =
     \<lparr>llm_invoke = (\<lambda>a article_text. responses a),
      json_loads = decoder,
      float_of_str = (\<lambda>s. Inl (ascii ''could not convert string to float'')),
      int_of_str = (\<lambda>s. Inl (ascii ''invalid literal for int() with base 10'')),
      str_of = (\<lambda>v. []),
      pydantic_lax_str = (\<lambda>v. None)\<rparr>"

text \<open>Component results for the examples.\<close>

definition example_depth :: "real \<Rightarrow> ReasoningDepthResult" where
  "example_depth s = \<lparr>rd_score = s, rd_has_causal_analysis = False,
     rd_has_comparative_analysis = False, rd_analysis_levels = 1, rd_depth_explanation = []\<rparr>"

definition example_structure :: "real \<Rightarrow> real \<Rightarrow> ArgumentStructureResult" where
  "example_structure s c = \<lparr>as_score = s, as_has_clear_structure = True,
     as_paragraph_coherence = c, as_argument_components = [], as_structure_explanation = []\<rparr>"

definition example_consistency :: "real \<Rightarrow> ConsistencyResult" where
  "example_consistency s = \<lparr>cs_score = s, cs_contradictions = [],
     cs_consistency_explanation = []\<rparr>"

definition example_fallacies :: "real \<Rightarrow> LogicalFallacy list \<Rightarrow> LogicalFallacyResult" where
  "example_fallacies s fs = \<lparr>lf_score = s, lf_fallacies = fs, lf_fallacy_explanation = []\<rparr>"

definition example_fallacy :: "pystr \<Rightarrow> LogicalFallacy" where
  "example_fallacy d = \<lparr>fallacy_type = POST_HOC, fallacy_location = [],
     fallacy_description = d, fallacy_severity = 0.5\<rparr>"

text \<open>
  An environment in which the model answers every agent with \<open>response\<close> and
  \<open>json.loads\<close> decodes this text to \<open>decoded\<close>.
\<close>

definition example_env :: "pystr \<Rightarrow> json \<Rightarrow> env" where
  "example_env response decoded =
     scripted_env (\<lambda>a. Inr response)
       (\<lambda>t. if t = response then Inr decoded
            else Inl (Error JSONDecodeError (ascii ''Expecting value'')))"

text \<open>\<open>float\<close> accepts the severity of an entry of \<open>fallacies\<close> that is a \<open>dict\<close>.\<close>

definition severity_ok :: "env \<Rightarrow> json \<Rightarrow> bool" where
  "severity_ok E v = (case v of
       JDict f \<Rightarrow> (case py_float E (get f (ascii ''severity'') (JFloat (Fin 0.5))) of
                     Inr s \<Rightarrow> True | Inl e \<Rightarrow> False)
     | JNull \<Rightarrow> True | JBool b \<Rightarrow> True | JInt n \<Rightarrow> True | JFloat x \<Rightarrow> True
     | JStr s \<Rightarrow> True | JList xs \<Rightarrow> True)"





definition null_severity_response :: pystr where
  \<open>null_severity_response = ascii ''{"fallacies": [1, {"severity": null}]}''\<close>

definition null_severity_json :: json where
  "null_severity_json =
     JDict [(ascii ''fallacies'', JList [JInt 1, JDict [(ascii ''severity'', JNull)]])]"

definition mixed_components_response :: pystr where
  \<open>mixed_components_response =
     ascii ''{"argument_components": [1, {"type": "claim"}, "x", null]}''\<close>

definition mixed_components_json :: json where
  "mixed_components_json =
     JDict [(ascii ''argument_components'',
       JList [JInt 1, JDict [(ascii ''type'', JStr (ascii ''claim''))], JStr (ascii ''x''),
              JNull])]"

definition score_payload :: pystr where
  \<open>score_payload = ascii ''{"score": 1}''\<close>

definition unknown_type_response :: pystr where
  \<open>unknown_type_response =
     ascii ''{"fallacies": [{"type": "appeal_to_authority", "location": "paragraph 2", "description": "cites a famous investor", "severity": 0.5}]}''\<close>

definition unknown_type_json :: json where
  "unknown_type_json =
     JDict [(ascii ''fallacies'',
       JList [JDict [(ascii ''type'', JStr (ascii ''appeal_to_authority'')),
                     (ascii ''location'', JStr (ascii ''paragraph 2'')),
                     (ascii ''description'', JStr (ascii ''cites a famous investor'')),
                     (ascii ''severity'', JFloat (Fin 0.5))]])]"

text \<open>
  The model answers the fallacy agent with \<open>unknown_type_response\<close> and the other
  agents with an empty object.
\<close>

definition unknown_type_env :: env where
  "unknown_type_env =
     scripted_env
       (\<lambda>a. Inr (if a = LogicalFallacyAgent then unknown_type_response else ascii ''{}''))
       (\<lambda>t. if t = unknown_type_response then Inr unknown_type_json
            else if t = ascii ''{}'' then Inr (JDict [])
            else Inl (Error JSONDecodeError (ascii ''Expecting value'')))"

section \<open>Unfolding the definitions on concrete inputs\<close>

lemmas text_defs = ascii_def strip_fences_def py_strip_def is_space_def startswith_def
  endswith_def fence_def fence_json_def Let_def

lemmas value_defs = bindE_def result_get_def get_def py_float_def py_int_def py_bool_def
  py_str_def py_iter_def clamp01_def py_min_def py_max_def parse_caught_def
  float_overflow_bound_def type_name_def quoted_type_def scripted_env_def

lemmas message_defs = strength_causal_def strength_comparative_def strength_levels_def
  weakness_causal_def weakness_comparative_def weakness_levels_def strength_structure_def
  strength_coherence_def weakness_structure_def weakness_coherence_def
  strength_consistency_def weakness_contradictions_def strength_fallacies_def
  weakness_fallacies_def recommend_causal_def recommend_comparative_def recommend_levels_def
  recommend_structure_def recommend_coherence_def recommend_contradictions_def
  recommend_fallacy_prefix_def

section \<open>Scores of the agents\<close>

lemma clamp01_in_unit: "in_unit (clamp01 x)"
  by (cases x) (auto simp: clamp01_def py_min_def py_max_def in_unit_def)

lemma depth_normalize_unit: "depth_normalize E v = Inr r \<Longrightarrow> in_unit (dd_score r)"
  by (auto simp: depth_normalize_def bindE_def clamp01_in_unit split: sum.splits)

lemma structure_normalize_unit: "structure_normalize E v = Inr r \<Longrightarrow> in_unit (sd_score r)"
  by (auto simp: structure_normalize_def bindE_def clamp01_in_unit split: sum.splits)

lemma consistency_normalize_unit: "consistency_normalize E v = Inr r \<Longrightarrow> in_unit (kd_score r)"
  by (auto simp: consistency_normalize_def bindE_def clamp01_in_unit split: sum.splits)

lemma fallacy_normalize_unit: "fallacy_normalize E v = Inr r \<Longrightarrow> in_unit (fd_score r)"
  by (auto simp: fallacy_normalize_def bindE_def clamp01_in_unit split: sum.splits)

lemma depth_fallback_unit: "in_unit (dd_score (depth_fallback m))"
  by (simp add: depth_fallback_def in_unit_def)

lemma structure_fallback_unit: "in_unit (sd_score (structure_fallback m))"
  by (simp add: structure_fallback_def in_unit_def)

lemma consistency_fallback_unit: "in_unit (kd_score (consistency_fallback m))"
  by (simp add: consistency_fallback_def in_unit_def)

lemma fallacy_fallback_unit: "in_unit (fd_score (fallacy_fallback m))"
  by (simp add: fallacy_fallback_def in_unit_def)

lemma depth_parse_response_unit: "depth_parse_response E t = Inr r \<Longrightarrow> in_unit (dd_score r)"
  by (auto simp: depth_parse_response_def depth_parse_body_def bindE_def depth_fallback_unit
      dest: depth_normalize_unit split: sum.splits error.splits if_splits)

lemma structure_parse_response_unit:
  "structure_parse_response E t = Inr r \<Longrightarrow> in_unit (sd_score r)"
  by (auto simp: structure_parse_response_def structure_parse_body_def bindE_def
      structure_fallback_unit dest: structure_normalize_unit
      split: sum.splits error.splits if_splits)

lemma consistency_parse_response_unit:
  "consistency_parse_response E t = Inr r \<Longrightarrow> in_unit (kd_score r)"
  by (auto simp: consistency_parse_response_def consistency_parse_body_def bindE_def
      consistency_fallback_unit dest: consistency_normalize_unit
      split: sum.splits error.splits if_splits)

lemma fallacy_parse_response_unit:
  "fallacy_parse_response E t = Inr r \<Longrightarrow> in_unit (fd_score r)"
  by (auto simp: fallacy_parse_response_def fallacy_parse_body_def bindE_def
      fallacy_fallback_unit dest: fallacy_normalize_unit
      split: sum.splits error.splits if_splits)

lemma depth_analyze_unit: "in_unit (dd_score (depth_analyze E t))"
  by (auto simp: depth_analyze_def bindE_def depth_fallback_unit
      dest: depth_parse_response_unit split: sum.splits error.splits)

lemma structure_analyze_unit: "in_unit (sd_score (structure_analyze E t))"
  by (auto simp: structure_analyze_def bindE_def structure_fallback_unit
      dest: structure_parse_response_unit split: sum.splits error.splits)

lemma consistency_analyze_unit: "in_unit (kd_score (consistency_analyze E t))"
  by (auto simp: consistency_analyze_def bindE_def consistency_fallback_unit
      dest: consistency_parse_response_unit split: sum.splits error.splits)

lemma fallacy_analyze_unit: "in_unit (fd_score (fallacy_analyze E t))"
  by (auto simp: fallacy_analyze_def bindE_def fallacy_fallback_unit
      dest: fallacy_parse_response_unit split: sum.splits error.splits)

text \<open>
  C2. For each of the four agents, for every article text and every behaviour of the
  capability and of the decoder (any response text, malformed or not, or a failure
  of the invocation), the score of the dictionary that \<open>analyze\<close> returns is a finite
  number in the interval from 0 to 1.
\<close>

theorem analyze_score_in_unit:
  "in_unit (dd_score (depth_analyze E article_text))
   \<and> in_unit (sd_score (structure_analyze E article_text))
   \<and> in_unit (fd_score (fallacy_analyze E article_text))
   \<and> in_unit (kd_score (consistency_analyze E article_text))"
  by (simp add: depth_analyze_unit structure_analyze_unit fallacy_analyze_unit
      consistency_analyze_unit)

text \<open>An instance: the model answers with the score \<open>NaN\<close>.\<close>

theorem analyze_score_in_unit_witness:
  \<open>in_unit (dd_score (depth_analyze
      (scripted_env (\<lambda>a. Inr (ascii ''{"score": NaN}''))
         (\<lambda>t. Inr (JDict [(ascii ''score'', JFloat NaN)]))) []))\<close>
  by (rule conjunct1 [OF analyze_score_in_unit])

section \<open>The fallback on invalid JSON\<close>



section \<open>The overall score\<close>






section \<open>Strengths and weaknesses\<close>

text \<open>Each section appends its own entries to the lists it is given.\<close>

lemma sw_reasoning_depth_append:
  "sw_reasoning_depth rd (ss, ws)
     = (ss @ fst (sw_reasoning_depth rd ([], [])), ws @ snd (sw_reasoning_depth rd ([], [])))"
  by (simp add: sw_reasoning_depth_def)

lemma sw_argument_structure_append:
  "sw_argument_structure ast (ss, ws)
     = (ss @ fst (sw_argument_structure ast ([], [])),
        ws @ snd (sw_argument_structure ast ([], [])))"
  by (simp add: sw_argument_structure_def)

lemma sw_consistency_append:
  "sw_consistency cs (ss, ws)
     = (ss @ fst (sw_consistency cs ([], [])), ws @ snd (sw_consistency cs ([], [])))"
  by (simp add: sw_consistency_def)

lemma sw_logical_fallacies_append:
  "sw_logical_fallacies lf (ss, ws)
     = (ss @ fst (sw_logical_fallacies lf ([], [])),
        ws @ snd (sw_logical_fallacies lf ([], [])))"
  by (simp add: sw_logical_fallacies_def)

lemma identify_sections:
  "identify_strengths_weaknesses rd ast cs lf =
     (fst (sw_reasoning_depth rd ([], [])) @ fst (sw_argument_structure ast ([], []))
        @ fst (sw_consistency cs ([], [])) @ fst (sw_logical_fallacies lf ([], [])),
      snd (sw_reasoning_depth rd ([], [])) @ snd (sw_argument_structure ast ([], []))
        @ snd (sw_consistency cs ([], [])) @ snd (sw_logical_fallacies lf ([], [])))"
proof -
  obtain s1 w1 where a: "sw_reasoning_depth rd ([], []) = (s1, w1)"
    by (cases "sw_reasoning_depth rd ([], [])")
  obtain s2 w2 where b: "sw_argument_structure ast ([], []) = (s2, w2)"
    by (cases "sw_argument_structure ast ([], [])")
  obtain s3 w3 where c: "sw_consistency cs ([], []) = (s3, w3)"
    by (cases "sw_consistency cs ([], [])")
  obtain s4 w4 where d: "sw_logical_fallacies lf ([], []) = (s4, w4)"
    by (cases "sw_logical_fallacies lf ([], [])")
  show ?thesis
    unfolding identify_strengths_weaknesses_def a
    by (simp add: sw_argument_structure_append [of ast s1 w1] b
        sw_consistency_append [of cs "s1 @ s2" "w1 @ w2"] c
        sw_logical_fallacies_append [of lf "s1 @ s2 @ s3" "w1 @ w2 @ w3"] d)
qed

text \<open>
  C10. In every evaluation and for each of the four dimensions, the entries the
  dimension's section adds to the strengths or those it adds to the weaknesses are
  none: reasoning depth and argument structure add strengths only when the score is
  at least 0.7 and weaknesses only when it is below 0.7; consistency and logical
  fallacies add a strength only when the score is at least 0.8 and a weakness only when
  it is below 0.8. The two lists of the evaluation are the concatenations of what the
  four sections add.
\<close>

theorem strengths_weaknesses_exclusive:
  "(fst (sw_reasoning_depth rd ([], [])) = [] \<or> snd (sw_reasoning_depth rd ([], [])) = [])
   \<and> (rd_score rd < 0.7 \<longrightarrow> fst (sw_reasoning_depth rd ([], [])) = [])
   \<and> (0.7 \<le> rd_score rd \<longrightarrow> snd (sw_reasoning_depth rd ([], [])) = [])
   \<and> (fst (sw_argument_structure ast ([], [])) = []
        \<or> snd (sw_argument_structure ast ([], [])) = [])
   \<and> (as_score ast < 0.7 \<longrightarrow> fst (sw_argument_structure ast ([], [])) = [])
   \<and> (0.7 \<le> as_score ast \<longrightarrow> snd (sw_argument_structure ast ([], [])) = [])
   \<and> (fst (sw_consistency cs ([], [])) = [] \<or> snd (sw_consistency cs ([], [])) = [])
   \<and> (cs_score cs < 0.8 \<longrightarrow> fst (sw_consistency cs ([], [])) = [])
   \<and> (0.8 \<le> cs_score cs \<longrightarrow> snd (sw_consistency cs ([], [])) = [])
   \<and> (fst (sw_logical_fallacies lf ([], [])) = []
        \<or> snd (sw_logical_fallacies lf ([], [])) = [])
   \<and> (lf_score lf < 0.8 \<longrightarrow> fst (sw_logical_fallacies lf ([], [])) = [])
   \<and> (0.8 \<le> lf_score lf \<longrightarrow> snd (sw_logical_fallacies lf ([], [])) = [])
   \<and> identify_strengths_weaknesses rd ast cs lf =
       (fst (sw_reasoning_depth rd ([], [])) @ fst (sw_argument_structure ast ([], []))
          @ fst (sw_consistency cs ([], [])) @ fst (sw_logical_fallacies lf ([], [])),
        snd (sw_reasoning_depth rd ([], [])) @ snd (sw_argument_structure ast ([], []))
          @ snd (sw_consistency cs ([], [])) @ snd (sw_logical_fallacies lf ([], [])))"
proof -
  have 1: "(fst (sw_reasoning_depth rd ([], [])) = []
        \<or> snd (sw_reasoning_depth rd ([], [])) = [])
   \<and> (rd_score rd < 0.7 \<longrightarrow> fst (sw_reasoning_depth rd ([], [])) = [])
   \<and> (0.7 \<le> rd_score rd \<longrightarrow> snd (sw_reasoning_depth rd ([], [])) = [])"
    by (simp add: sw_reasoning_depth_def)
  have 2: "(fst (sw_argument_structure ast ([], [])) = []
        \<or> snd (sw_argument_structure ast ([], [])) = [])
   \<and> (as_score ast < 0.7 \<longrightarrow> fst (sw_argument_structure ast ([], [])) = [])
   \<and> (0.7 \<le> as_score ast \<longrightarrow> snd (sw_argument_structure ast ([], [])) = [])"
    by (simp add: sw_argument_structure_def)
  have 3: "(fst (sw_consistency cs ([], [])) = [] \<or> snd (sw_consistency cs ([], [])) = [])
   \<and> (cs_score cs < 0.8 \<longrightarrow> fst (sw_consistency cs ([], [])) = [])
   \<and> (0.8 \<le> cs_score cs \<longrightarrow> snd (sw_consistency cs ([], [])) = [])"
    by (simp add: sw_consistency_def)
  have 4: "(fst (sw_logical_fallacies lf ([], [])) = []
        \<or> snd (sw_logical_fallacies lf ([], [])) = [])
   \<and> (lf_score lf < 0.8 \<longrightarrow> fst (sw_logical_fallacies lf ([], [])) = [])
   \<and> (0.8 \<le> lf_score lf \<longrightarrow> snd (sw_logical_fallacies lf ([], [])) = [])"
    by (simp add: sw_logical_fallacies_def)
  from 1 2 3 4 identify_sections [of rd ast cs lf] show ?thesis by blast
qed

theorem strengths_weaknesses_exclusive_witness:
  "fst (sw_reasoning_depth (example_depth 0.5) ([], [])) = []
   \<and> snd (sw_argument_structure (example_structure 0.9 0.9) ([], [])) = []
   \<and> snd (sw_consistency (example_consistency 0.9) ([], [])) = []
   \<and> fst (sw_logical_fallacies (example_fallacies 0.3 []) ([], [])) = []"
  using strengths_weaknesses_exclusive [of "example_depth 0.5" "example_structure 0.9 0.9"
      "example_consistency 0.9" "example_fallacies 0.3 []"]
  by (simp add: example_depth_def example_structure_def example_consistency_def
      example_fallacies_def)

subsection \<open>The two thresholds of the paragraph coherence\<close>

lemma weakness_coherence_depth:
  "weakness_coherence \<in> set (snd (sw_reasoning_depth rd ([], []))) \<longleftrightarrow> False"
  by (simp add: sw_reasoning_depth_def message_defs)

lemma weakness_coherence_consistency:
  "weakness_coherence \<in> set (snd (sw_consistency cs ([], []))) \<longleftrightarrow> False"
  by (simp add: sw_consistency_def message_defs)

lemma weakness_coherence_fallacies:
  "weakness_coherence \<in> set (snd (sw_logical_fallacies lf ([], []))) \<longleftrightarrow> False"
  by (simp add: sw_logical_fallacies_def message_defs)

lemma weakness_coherence_structure:
  "weakness_coherence \<in> set (snd (sw_argument_structure ast ([], [])))
     \<longleftrightarrow> as_score ast < 0.7 \<and> as_paragraph_coherence ast < 0.6"
  by (auto simp add: sw_argument_structure_def message_defs)

lemma strength_coherence_depth:
  "strength_coherence \<in> set (fst (sw_reasoning_depth rd ([], []))) \<longleftrightarrow> False"
  by (simp add: sw_reasoning_depth_def message_defs)

lemma strength_coherence_consistency:
  "strength_coherence \<in> set (fst (sw_consistency cs ([], []))) \<longleftrightarrow> False"
  by (simp add: sw_consistency_def message_defs)

lemma strength_coherence_fallacies:
  "strength_coherence \<in> set (fst (sw_logical_fallacies lf ([], []))) \<longleftrightarrow> False"
  by (simp add: sw_logical_fallacies_def message_defs)

lemma strength_coherence_structure:
  "strength_coherence \<in> set (fst (sw_argument_structure ast ([], [])))
     \<longleftrightarrow> 0.7 \<le> as_score ast \<and> 0.7 \<le> as_paragraph_coherence ast"
  by (auto simp add: sw_argument_structure_def message_defs)

lemma weakness_coherence_iff:
  "weakness_coherence \<in> set (snd (identify_strengths_weaknesses rd ast cs lf))
     \<longleftrightarrow> as_score ast < 0.7 \<and> as_paragraph_coherence ast < 0.6"
  by (simp add: identify_sections weakness_coherence_depth weakness_coherence_consistency
      weakness_coherence_fallacies weakness_coherence_structure)

lemma strength_coherence_iff:
  "strength_coherence \<in> set (fst (identify_strengths_weaknesses rd ast cs lf))
     \<longleftrightarrow> 0.7 \<le> as_score ast \<and> 0.7 \<le> as_paragraph_coherence ast"
  by (simp add: identify_sections strength_coherence_depth strength_coherence_consistency
      strength_coherence_fallacies strength_coherence_structure)

text \<open>
  C7. In the weaknesses that \<open>_identify_strengths_weaknesses\<close> returns, for an argument
  structure result with a score below 0.7, the weakness on the connection of the
  paragraphs (line 187) occurs exactly when the paragraph coherence is below 0.6; with
  a score of at least 0.7, the strength on the connection of the paragraphs (line 182)
  occurs exactly when the paragraph coherence is at least 0.7. The strength does not
  occur with a score below 0.7, nor the weakness with a score of at least 0.7.
\<close>

theorem coherence_threshold:
  "(as_score ast < 0.7 \<longrightarrow>
      (weakness_coherence \<in> set (snd (identify_strengths_weaknesses rd ast cs lf))
         \<longleftrightarrow> as_paragraph_coherence ast < 0.6))
   \<and> (0.7 \<le> as_score ast \<longrightarrow>
      (strength_coherence \<in> set (fst (identify_strengths_weaknesses rd ast cs lf))
         \<longleftrightarrow> 0.7 \<le> as_paragraph_coherence ast))
   \<and> (as_score ast < 0.7 \<longrightarrow>
        strength_coherence \<notin> set (fst (identify_strengths_weaknesses rd ast cs lf)))
   \<and> (0.7 \<le> as_score ast \<longrightarrow>
        weakness_coherence \<notin> set (snd (identify_strengths_weaknesses rd ast cs lf)))"
proof -
  have w: "weakness_coherence \<in> set (snd (identify_strengths_weaknesses rd ast cs lf))
     \<longleftrightarrow> as_score ast < 0.7 \<and> as_paragraph_coherence ast < 0.6"
    by (rule weakness_coherence_iff)
  have s: "strength_coherence \<in> set (fst (identify_strengths_weaknesses rd ast cs lf))
     \<longleftrightarrow> 0.7 \<le> as_score ast \<and> 0.7 \<le> as_paragraph_coherence ast"
    by (rule strength_coherence_iff)
  show ?thesis
    unfolding w s by auto
qed

text \<open>
  The examples of the specification: score 0.65 with coherence 0.65 gives no such
  weakness, score 0.65 with coherence 0.55 gives one.
\<close>

theorem coherence_threshold_witness:
  "weakness_coherence \<notin> set (snd (identify_strengths_weaknesses (example_depth 0.8)
       (example_structure 0.65 0.65) (example_consistency 0.9) (example_fallacies 0.9 [])))
   \<and> weakness_coherence \<in> set (snd (identify_strengths_weaknesses (example_depth 0.8)
       (example_structure 0.65 0.55) (example_consistency 0.9) (example_fallacies 0.9 [])))
   \<and> strength_coherence \<in> set (fst (identify_strengths_weaknesses (example_depth 0.8)
       (example_structure 0.7 0.7) (example_consistency 0.9) (example_fallacies 0.9 [])))
   \<and> strength_coherence \<notin> set (fst (identify_strengths_weaknesses (example_depth 0.8)
       (example_structure 0.7 0.69) (example_consistency 0.9) (example_fallacies 0.9 [])))"
  using coherence_threshold [of "example_structure 0.65 0.65" "example_depth 0.8"
      "example_consistency 0.9" "example_fallacies 0.9 []"]
    coherence_threshold [of "example_structure 0.65 0.55" "example_depth 0.8"
      "example_consistency 0.9" "example_fallacies 0.9 []"]
    coherence_threshold [of "example_structure 0.7 0.7" "example_depth 0.8"
      "example_consistency 0.9" "example_fallacies 0.9 []"]
    coherence_threshold [of "example_structure 0.7 0.69" "example_depth 0.8"
      "example_consistency 0.9" "example_fallacies 0.9 []"]
  by (simp add: example_structure_def)

section \<open>Recommendations\<close>

lemma recommend_fallacy_startswith: "startswith (recommend_fallacy f) recommend_fallacy_prefix"
  by (simp add: recommend_fallacy_def startswith_def)

lemma other_recommendations_prefix:
  "\<not> startswith recommend_causal recommend_fallacy_prefix"
  "\<not> startswith recommend_comparative recommend_fallacy_prefix"
  "\<not> startswith recommend_levels recommend_fallacy_prefix"
  "\<not> startswith recommend_structure recommend_fallacy_prefix"
  "\<not> startswith recommend_coherence recommend_fallacy_prefix"
  "\<not> startswith recommend_contradictions recommend_fallacy_prefix"
  by (simp_all add: startswith_def message_defs)

lemma filter_recommend_fallacy:
  "filter (\<lambda>r. startswith r recommend_fallacy_prefix) (map recommend_fallacy fs)
     = map recommend_fallacy fs"
  by (induction fs) (simp_all add: recommend_fallacy_startswith)

text \<open>
  C8. For every logical fallacy result, the recommendations are those produced
  without any fallacy, followed by one entry for each of the first two fallacies, in
  their order; these are the only entries that begin with the text of line 236, and
  there are at most two of them, however many fallacies there are.
\<close>

theorem fallacy_recommendations_at_most_two:
  "generate_recommendations rd ast cs lf
     = generate_recommendations rd ast cs (lf\<lparr>lf_fallacies := []\<rparr>)
         @ map recommend_fallacy (take 2 (lf_fallacies lf))
   \<and> filter (\<lambda>r. startswith r recommend_fallacy_prefix)
         (generate_recommendations rd ast cs lf)
       = map recommend_fallacy (take 2 (lf_fallacies lf))
   \<and> length (filter (\<lambda>r. startswith r recommend_fallacy_prefix)
         (generate_recommendations rd ast cs lf)) = min 2 (length (lf_fallacies lf))
   \<and> length (filter (\<lambda>r. startswith r recommend_fallacy_prefix)
         (generate_recommendations rd ast cs lf)) \<le> 2"
proof -
  have a: "generate_recommendations rd ast cs lf
     = generate_recommendations rd ast cs (lf\<lparr>lf_fallacies := []\<rparr>)
         @ map recommend_fallacy (take 2 (lf_fallacies lf))"
    by (simp add: generate_recommendations_def)
  have b: "filter (\<lambda>r. startswith r recommend_fallacy_prefix)
         (generate_recommendations rd ast cs (lf\<lparr>lf_fallacies := []\<rparr>)) = []"
    by (simp add: generate_recommendations_def other_recommendations_prefix)
  have c: "filter (\<lambda>r. startswith r recommend_fallacy_prefix)
         (generate_recommendations rd ast cs lf)
       = map recommend_fallacy (take 2 (lf_fallacies lf))"
    by (subst a) (simp only: filter_append b filter_recommend_fallacy append_Nil)
  show ?thesis
    using a c by (simp add: min.commute)
qed

theorem fallacy_recommendations_at_most_two_witness:
  "filter (\<lambda>r. startswith r recommend_fallacy_prefix)
     (generate_recommendations (example_depth 0.5) (example_structure 0.5 0.5)
        (example_consistency 0.9)
        (example_fallacies 0.4 [example_fallacy (ascii ''first''),
           example_fallacy (ascii ''second''), example_fallacy (ascii ''third'')]))
     = [recommend_fallacy_prefix @ ascii ''first'', recommend_fallacy_prefix @ ascii ''second'']"
  using conjunct1 [OF conjunct2 [OF fallacy_recommendations_at_most_two
      [of "example_depth 0.5" "example_structure 0.5 0.5" "example_consistency 0.9"
        "example_fallacies 0.4 [example_fallacy (ascii ''first''),
           example_fallacy (ascii ''second''), example_fallacy (ascii ''third'')]"]]]
  by (simp add: example_fallacies_def example_fallacy_def recommend_fallacy_def)

section \<open>Fence stripping\<close>

lemma fence_not_space: "\<not> is_space 96"
  by (simp add: is_space_def)

lemma py_strip_outer:
  assumes "list_all is_space o1" "list_all is_space o2"
    and "s \<noteq> []" "\<not> is_space (hd s)" "\<not> is_space (last s)"
  shows "py_strip (o1 @ s @ o2) = s"
proof -
  from assms(3) obtain x xs where s: "s = x # xs" by (cases s) auto
  with assms(4) have x: "\<not> is_space x" by simp
  have 1: "dropWhile is_space (o1 @ s @ o2) = s @ o2"
    using assms(1) x by (simp add: dropWhile_append list_all_iff s)
  from assms(3) have r: "rev s \<noteq> []" by simp
  then obtain y ys where rs: "rev s = y # ys" by (cases "rev s") auto
  have "hd (rev s) = last s" using assms(3) by (simp add: hd_rev)
  with assms(5) rs have y: "\<not> is_space y" by simp
  have 2: "dropWhile is_space (rev o2 @ rev s) = rev s"
    using assms(2) y by (simp add: dropWhile_append list_all_iff rs)
  show ?thesis
    unfolding py_strip_def 1 by (simp add: 2)
qed

lemma py_strip_tail:
  "dropWhile is_space s
     = py_strip s @ rev (takeWhile is_space (rev (dropWhile is_space s)))"
proof -
  let ?m = "dropWhile is_space s"
  have "py_strip s @ rev (takeWhile is_space (rev ?m))
          = rev (takeWhile is_space (rev ?m) @ dropWhile is_space (rev ?m))"
    by (simp only: py_strip_def rev_append)
  also have "\<dots> = rev (rev ?m)"
    by (simp only: takeWhile_dropWhile_id)
  finally show ?thesis by simp
qed

lemma fence_length: "length fence = 3"
  by (simp add: fence_def ascii_def)

lemma py_strip_decomp:
  "\<exists>a b. s = a @ py_strip s @ b \<and> list_all is_space a \<and> list_all is_space b"
proof -
  let ?m = "dropWhile is_space s"
  let ?a = "takeWhile is_space s"
  let ?b = "rev (takeWhile is_space (rev ?m))"
  have m: "?m = py_strip s @ ?b"
    by (rule py_strip_tail)
  have "s = ?a @ ?m" by simp
  with m have "s = ?a @ py_strip s @ ?b" by simp
  moreover have "list_all is_space ?a"
    by (auto simp: list_all_iff dest: set_takeWhileD)
  moreover have "list_all is_space ?b"
    by (auto simp: list_all_iff dest: set_takeWhileD)
  ultimately show ?thesis by blast
qed

lemma py_strip_ends:
  assumes "py_strip s \<noteq> []"
  shows "\<not> is_space (hd (py_strip s)) \<and> \<not> is_space (last (py_strip s))"
proof -
  let ?m = "dropWhile is_space s"
  let ?d = "dropWhile is_space (rev ?m)"
  from assms have d: "?d \<noteq> []" by (simp add: py_strip_def)
  then have "\<not> is_space (hd ?d)" by (rule hd_dropWhile)
  moreover have "last (py_strip s) = hd ?d"
    using d by (simp add: py_strip_def last_rev)
  ultimately have l: "\<not> is_space (last (py_strip s))" by simp
  have m: "?m \<noteq> []"
  proof
    assume e: "?m = []"
    have "?d = dropWhile is_space (rev [])" by (simp only: e)
    then have "?d = []" by simp
    with d show False by contradiction
  qed
  then have hm: "\<not> is_space (hd ?m)" by (rule hd_dropWhile)
  have "?m = py_strip s @ rev (takeWhile is_space (rev ?m))"
    by (rule py_strip_tail)
  then have "hd ?m = hd (py_strip s @ rev (takeWhile is_space (rev ?m)))" by (rule arg_cong)
  with assms have "hd ?m = hd (py_strip s)" by simp
  with hm l show ?thesis by simp
qed

lemma not_startswith_fence: "s \<noteq> [] \<Longrightarrow> hd s \<noteq> 96 \<Longrightarrow> \<not> startswith s fence"
  by (cases s) (auto simp: startswith_def fence_def ascii_def)

lemma not_startswith_fence_json: "s \<noteq> [] \<Longrightarrow> hd s \<noteq> 96 \<Longrightarrow> \<not> startswith s fence_json"
  by (cases s) (auto simp: startswith_def fence_json_def ascii_def)

lemma not_endswith_fence:
  assumes "s \<noteq> []" "last s \<noteq> 96"
  shows "\<not> endswith s fence"
proof
  assume "endswith s fence"
  then have "length fence \<le> length s \<and> drop (length s - length fence) s = fence"
    by (simp only: endswith_def)
  then have l: "3 \<le> length s" and d: "drop (length s - 3) s = fence"
    by (simp_all only: fence_length)
  from l have "drop (length s - 3) s \<noteq> []" by simp
  then have "last (drop (length s - 3) s) = last s" by simp
  then have "last s = last fence" by (simp only: d)
  also have "last fence = 96" by (simp add: fence_def ascii_def)
  finally show False using assms(2) by contradiction
qed

lemma startswith_fence_json: "startswith (fence_json @ s) fence_json"
  by (simp add: startswith_def)

lemma drop_fence_json: "drop 7 (fence_json @ s) = s"
  by (simp add: fence_json_def ascii_def)

lemma startswith_fence: "startswith (fence @ s) fence"
  by (simp add: startswith_def)

lemma drop_fence: "drop 3 (fence @ s) = s"
  by (simp add: fence_def ascii_def)

lemma bare_not_json:
  "s \<noteq> [] \<Longrightarrow> hd s \<noteq> 106 \<Longrightarrow> \<not> startswith (fence @ s) fence_json"
  by (cases s) (auto simp: startswith_def fence_json_def fence_def ascii_def)

lemma endswith_fence: "endswith (s @ fence) fence"
  by (simp add: endswith_def)

lemma take_fence: "take (length (s @ fence) - 3) (s @ fence) = s"
  by (simp add: fence_def ascii_def)

lemma strip_fences_plain:
  assumes "s \<noteq> []" "\<not> is_space (hd s)" "\<not> is_space (last s)" "hd s \<noteq> 96" "last s \<noteq> 96"
    and "list_all is_space o1" "list_all is_space o2"
  shows "strip_fences (o1 @ s @ o2) = s"
proof -
  have 0: "py_strip (o1 @ s @ o2) = s"
    using assms by (simp add: py_strip_outer)
  have 1: "py_strip s = s"
    using py_strip_outer [of "[]" "[]" s] assms by simp
  show ?thesis
    unfolding strip_fences_def Let_def 0
    using assms by (simp add: not_startswith_fence not_startswith_fence_json
        not_endswith_fence 1)
qed

lemma fenced_body:
  assumes "list_all is_space a" "list_all is_space b" "s \<noteq> []" "hd s \<noteq> 96" "hd s \<noteq> 106"
  shows "(a @ s @ b) @ fence \<noteq> []" "hd ((a @ s @ b) @ fence) \<noteq> 96"
    "hd ((a @ s @ b) @ fence) \<noteq> 106"
proof -
  show "(a @ s @ b) @ fence \<noteq> []" using assms(3) by simp
  have "hd ((a @ s @ b) @ fence) \<noteq> 96 \<and> hd ((a @ s @ b) @ fence) \<noteq> 106"
  proof (cases a)
    case Nil
    with assms show ?thesis by simp
  next
    case (Cons x xs)
    with assms(1) have "is_space x" by simp
    then have "x \<noteq> 96 \<and> x \<noteq> 106" by (auto simp: is_space_def)
    with Cons show ?thesis by simp
  qed
  then show "hd ((a @ s @ b) @ fence) \<noteq> 96" "hd ((a @ s @ b) @ fence) \<noteq> 106" by simp_all
qed

lemma strip_fences_fenced:
  assumes "list_all is_space a" "list_all is_space b" "s \<noteq> []" "\<not> is_space (hd s)"
    "\<not> is_space (last s)" "hd s \<noteq> 96" "hd s \<noteq> 106"
    and "list_all is_space o1" "list_all is_space o2"
  shows "strip_fences (o1 @ fence_json @ (a @ s @ b) @ fence @ o2) = s"
    and "strip_fences (o1 @ fence @ (a @ s @ b) @ fence @ o2) = s"
proof -
  let ?p = "a @ s @ b"
  note body = fenced_body [OF assms(1,2,3,6,7)]
  have sp: "py_strip ?p = s"
    using assms by (simp add: py_strip_outer)
  have l: "last (fence_json @ ?p @ fence) = 96" "last (fence @ ?p @ fence) = 96"
    "hd (fence_json @ ?p @ fence) = 96" "hd (fence @ ?p @ fence) = 96"
    by (simp_all add: fence_def fence_json_def ascii_def)
  have j: "py_strip (o1 @ fence_json @ ?p @ fence @ o2) = fence_json @ ?p @ fence"
    using py_strip_outer [of o1 o2 "fence_json @ ?p @ fence"] assms(8,9) l fence_not_space
    by (simp add: fence_json_def ascii_def)
  have k: "py_strip (o1 @ fence @ ?p @ fence @ o2) = fence @ ?p @ fence"
    using py_strip_outer [of o1 o2 "fence @ ?p @ fence"] assms(8,9) l fence_not_space
    by (simp add: fence_def ascii_def)
  have ns: "\<not> startswith (?p @ fence) fence"
    using body by (simp add: not_startswith_fence)
  have nj: "\<not> startswith (fence @ ?p @ fence) fence_json"
    using bare_not_json [of "?p @ fence"] body by simp
  show "strip_fences (o1 @ fence_json @ ?p @ fence @ o2) = s"
    unfolding strip_fences_def Let_def j
    using ns take_fence [of ?p] endswith_fence [of ?p] startswith_fence_json [of "?p @ fence"]
      drop_fence_json [of "?p @ fence"]
    by (simp add: sp)
  show "strip_fences (o1 @ fence @ ?p @ fence @ o2) = s"
    unfolding strip_fences_def Let_def k
    using ns nj take_fence [of ?p] endswith_fence [of ?p] startswith_fence [of "?p @ fence"]
      drop_fence [of "?p @ fence"]
    by (simp add: sp)
qed

lemma strip_fences_wrapped:
  assumes "py_strip p \<noteq> []" "hd (py_strip p) \<noteq> 96" "hd (py_strip p) \<noteq> 106"
    "last (py_strip p) \<noteq> 96" "list_all is_space o1" "list_all is_space o2"
  shows "strip_fences (o1 @ p @ o2) = py_strip p"
    and "strip_fences (o1 @ fence_json @ p @ fence @ o2) = py_strip p"
    and "strip_fences (o1 @ fence @ p @ fence @ o2) = py_strip p"
proof -
  obtain a b where p: "p = a @ py_strip p @ b" and a: "list_all is_space a"
    and b: "list_all is_space b"
    using py_strip_decomp [of p] by blast
  note e = py_strip_ends [OF assms(1)]
  have "strip_fences ((o1 @ a) @ py_strip p @ (b @ o2)) = py_strip p"
    using assms e a b by (intro strip_fences_plain) simp_all
  then show "strip_fences (o1 @ p @ o2) = py_strip p"
    using p by (metis append.assoc)
  have "strip_fences (o1 @ fence_json @ (a @ py_strip p @ b) @ fence @ o2) = py_strip p"
    using assms e a b by (intro strip_fences_fenced) simp_all
  then show "strip_fences (o1 @ fence_json @ p @ fence @ o2) = py_strip p"
    using p by simp
  have "strip_fences (o1 @ fence @ (a @ py_strip p @ b) @ fence @ o2) = py_strip p"
    using assms e a b by (intro strip_fences_fenced) simp_all
  then show "strip_fences (o1 @ fence @ p @ fence @ o2) = py_strip p"
    using p by simp
qed


lemma depth_parse_response_cong:
  "strip_fences t = strip_fences t' \<Longrightarrow> depth_parse_response E t = depth_parse_response E t'"
  by (simp add: depth_parse_response_def depth_parse_body_def)

lemma structure_parse_response_cong:
  "strip_fences t = strip_fences t' \<Longrightarrow>
     structure_parse_response E t = structure_parse_response E t'"
  by (simp add: structure_parse_response_def structure_parse_body_def)

lemma fallacy_parse_response_cong:
  "strip_fences t = strip_fences t' \<Longrightarrow>
     fallacy_parse_response E t = fallacy_parse_response E t'"
  by (simp add: fallacy_parse_response_def fallacy_parse_body_def)

lemma consistency_parse_response_cong:
  "strip_fences t = strip_fences t' \<Longrightarrow>
     consistency_parse_response E t = consistency_parse_response E t'"
  by (simp add: consistency_parse_response_def consistency_parse_body_def)

text \<open>
  C6. Let \<open>p\<close> be a payload that, stripped of surrounding whitespace, is not empty,
  does not begin with a backquote or the letter j and does not end with a
  backquote (every JSON text is such a payload), and let \<open>o1\<close>, \<open>o2\<close> be
  whitespace. The text handed to \<open>json.loads\<close> is the stripped payload, whether the
  response is the payload itself, the payload between a fence tagged \<open>json\<close> and
  a closing fence, or the payload between two bare fences; stripping the fences of the
  result again changes nothing. Hence each of the four parsers returns the same
  result for the three presentations of the payload.
\<close>

theorem fence_stripping_independent:
  assumes "py_strip p \<noteq> []" "hd (py_strip p) \<noteq> 96" "hd (py_strip p) \<noteq> 106"
    "last (py_strip p) \<noteq> 96" "list_all is_space o1" "list_all is_space o2"
  shows "strip_fences (o1 @ p @ o2) = py_strip p
    \<and> strip_fences (o1 @ fence_json @ p @ fence @ o2) = py_strip p
    \<and> strip_fences (o1 @ fence @ p @ fence @ o2) = py_strip p
    \<and> strip_fences (py_strip p) = py_strip p
    \<and> depth_parse_response E (o1 @ fence_json @ p @ fence @ o2) = depth_parse_response E p
    \<and> depth_parse_response E (o1 @ fence @ p @ fence @ o2) = depth_parse_response E p
    \<and> structure_parse_response E (o1 @ fence_json @ p @ fence @ o2)
        = structure_parse_response E p
    \<and> structure_parse_response E (o1 @ fence @ p @ fence @ o2)
        = structure_parse_response E p
    \<and> fallacy_parse_response E (o1 @ fence_json @ p @ fence @ o2)
        = fallacy_parse_response E p
    \<and> fallacy_parse_response E (o1 @ fence @ p @ fence @ o2) = fallacy_parse_response E p
    \<and> consistency_parse_response E (o1 @ fence_json @ p @ fence @ o2)
        = consistency_parse_response E p
    \<and> consistency_parse_response E (o1 @ fence @ p @ fence @ o2)
        = consistency_parse_response E p"
proof -
  have u: "strip_fences (o1 @ p @ o2) = py_strip p"
    and j: "strip_fences (o1 @ fence_json @ p @ fence @ o2) = py_strip p"
    and b: "strip_fences (o1 @ fence @ p @ fence @ o2) = py_strip p"
    using assms by (rule strip_fences_wrapped)+
  have "strip_fences ([] @ p @ []) = py_strip p"
    using assms(1-4) by (rule strip_fences_wrapped) simp_all
  then have q: "strip_fences p = py_strip p" by simp
  have i: "strip_fences (py_strip p) = py_strip p"
    using strip_fences_plain [of "py_strip p" "[]" "[]"] assms(1,2,4) py_strip_ends [OF assms(1)]
    by simp
  have jq: "strip_fences (o1 @ fence_json @ p @ fence @ o2) = strip_fences p"
    and bq: "strip_fences (o1 @ fence @ p @ fence @ o2) = strip_fences p"
    by (simp_all only: j b q)
  show ?thesis
    using u j b i depth_parse_response_cong [OF jq, of E] depth_parse_response_cong [OF bq, of E]
      structure_parse_response_cong [OF jq, of E] structure_parse_response_cong [OF bq, of E]
      fallacy_parse_response_cong [OF jq, of E] fallacy_parse_response_cong [OF bq, of E]
      consistency_parse_response_cong [OF jq, of E] consistency_parse_response_cong [OF bq, of E]
    by blast
qed

theorem fence_stripping_independent_witness:
  "strip_fences (ascii '' '' @ fence_json @ (10 # score_payload @ [10]) @ fence @ [10])
     = score_payload
   \<and> strip_fences ([] @ fence @ score_payload @ fence @ []) = score_payload
   \<and> strip_fences score_payload = score_payload"
proof -
  have p1: "py_strip (10 # score_payload @ [10]) = score_payload"
    and p2: "py_strip score_payload = score_payload"
    by (simp_all add: score_payload_def text_defs)
  have h: "score_payload \<noteq> []" "hd score_payload \<noteq> 96" "hd score_payload \<noteq> 106"
    "last score_payload \<noteq> 96"
    by (simp_all add: score_payload_def ascii_def)
  have w: "list_all is_space (ascii '' '')" "list_all is_space [10]" "list_all is_space []"
    by (simp_all add: text_defs)
  have a: "strip_fences (ascii '' '' @ fence_json @ (10 # score_payload @ [10]) @ fence @ [10])
             = score_payload"
    using fence_stripping_independent [of "10 # score_payload @ [10]" "ascii '' ''" "[10]"]
      h w unfolding p1 by blast
  have b: "strip_fences ([] @ fence @ score_payload @ fence @ []) = score_payload
           \<and> strip_fences score_payload = score_payload"
    using fence_stripping_independent [of score_payload "[]" "[]"] h w unfolding p2 by blast
  from a b show ?thesis by blast
qed

section \<open>The derived score of the fallacy agent\<close>














section \<open>Entries of a list that are not objects\<close>

lemma components_loop_filter: "components_loop xs = components_loop (filter is_dict xs)"
  by (induction xs rule: components_loop.induct) (simp_all add: is_dict_def)

lemma components_loop_length: "length (components_loop xs) = length (filter is_dict xs)"
  by (induction xs rule: components_loop.induct) (simp_all add: is_dict_def)

lemma fallacies_loop_filter: "fallacies_loop E xs = fallacies_loop E (filter is_dict xs)"
  by (induction E xs rule: fallacies_loop.induct) (simp_all add: is_dict_def)

lemma fallacies_loop_length:
  "fallacies_loop E xs = Inr fs \<Longrightarrow> length fs = length (filter is_dict xs)"
  by (induction E xs arbitrary: fs rule: fallacies_loop.induct)
    (auto simp: is_dict_def bindE_def split: sum.splits)

lemma fallacies_loop_succeeds:
  "(\<exists>fs. fallacies_loop E xs = Inr fs) \<longleftrightarrow> list_all (severity_ok E) xs"
  by (induction E xs rule: fallacies_loop.induct)
    (auto simp: severity_ok_def bindE_def split: sum.splits)

lemma structure_normalize_filter:
  assumes "map_of kvs (ascii ''argument_components'') = Some (JList xs)"
  shows "structure_normalize E (JDict kvs) =
         structure_normalize E
           (JDict ((ascii ''argument_components'', JList (filter is_dict xs)) # kvs))"
proof -
  have "components_loop xs = components_loop (filter is_dict xs)"
    by (rule components_loop_filter)
  with assms show ?thesis
    by (simp add: structure_normalize_def result_get_def get_def parse_components_def
        py_iter_def ascii_def bindE_def)
qed

lemma fallacy_normalize_filter:
  assumes "map_of kvs (ascii ''fallacies'') = Some (JList xs)"
  shows "fallacy_normalize E (JDict kvs) =
         fallacy_normalize E (JDict ((ascii ''fallacies'', JList (filter is_dict xs)) # kvs))"
proof -
  have "fallacies_loop E xs = fallacies_loop E (filter is_dict xs)"
    by (rule fallacies_loop_filter)
  with assms show ?thesis
    by (simp add: fallacy_normalize_def result_get_def get_def py_iter_def ascii_def bindE_def)
qed

lemma strip_null: "strip_fences null_severity_response = null_severity_response"
  by (simp add: null_severity_response_def text_defs)

text \<open>
  C9, as stated, at the response \<open>{"fallacies": [1, {"severity": null}]}\<close>: a valid JSON
  object whose list \<open>fallacies\<close> contains an entry that is not an object. Parsing does
  not succeed: \<open>float(None)\<close> raises \<open>TypeError\<close>, which leaves \<open>_parse_response\<close>, and
  \<open>analyze\<close> returns its fallback.
\<close>

theorem non_object_entries_counterexample:
  "json_loads (example_env null_severity_response null_severity_json)
       (strip_fences null_severity_response) = Inr null_severity_json
   \<and> fallacy_parse_response (example_env null_severity_response null_severity_json)
       null_severity_response =
     Inl (Error TypeError
       (ascii ''float() argument must be a string or a real number, not ''
          @ [39] @ ascii ''NoneType'' @ [39]))
   \<and> fallacy_analyze (example_env null_severity_response null_severity_json) [] =
     \<lparr>fd_score = Fin 0.7, fd_fallacies = [],
      fd_fallacy_explanation = ascii ''Error during analysis: ''
        @ ascii ''float() argument must be a string or a real number, not ''
        @ [39] @ ascii ''NoneType'' @ [39]\<rparr>"
  by (simp add: strip_null example_env_def fallacy_analyze_def fallacy_parse_response_def
      fallacy_parse_body_def fallacy_normalize_def fallacy_fallback_def null_severity_json_def
      value_defs ascii_def)

text \<open>
  C9, amended. For every list \<open>xs\<close> of entries in \<open>argument_components\<close> or in
  \<open>fallacies\<close>, the entries that are not JSON objects are skipped and cause no failure:
  \<^item> \<open>_parse_components\<close> succeeds on every list and returns one component for each
    entry that is an object, in their order;
  \<^item> the loop over \<open>fallacies\<close> has the same outcome as on the list without the
    entries that are not objects; it succeeds exactly when \<open>float\<close> accepts the
    severity of every entry that is an object, and then returns one fallacy for each
    such entry;
  \<^item> for both agents, validating a decoded object gives the same outcome (result or
    error) as validating the object whose list has these entries removed.
\<close>

theorem non_object_entries_dropped:
  "parse_components (JList xs) = Inr (components_loop (filter is_dict xs))
   \<and> length (components_loop (filter is_dict xs)) = length (filter is_dict xs)
   \<and> fallacies_loop E xs = fallacies_loop E (filter is_dict xs)
   \<and> ((\<exists>fs. fallacies_loop E xs = Inr fs) \<longleftrightarrow> list_all (severity_ok E) xs)
   \<and> (\<forall>fs. fallacies_loop E xs = Inr fs \<longrightarrow> length fs = length (filter is_dict xs))
   \<and> (map_of kvs (ascii ''argument_components'') = Some (JList xs) \<longrightarrow>
        structure_normalize E (JDict kvs) =
        structure_normalize E
          (JDict ((ascii ''argument_components'', JList (filter is_dict xs)) # kvs)))
   \<and> (map_of kvs (ascii ''fallacies'') = Some (JList xs) \<longrightarrow>
        fallacy_normalize E (JDict kvs) =
        fallacy_normalize E (JDict ((ascii ''fallacies'', JList (filter is_dict xs)) # kvs)))"
proof -
  have a: "parse_components (JList xs) = Inr (components_loop (filter is_dict xs))"
    using components_loop_filter [of xs] by (simp add: parse_components_def py_iter_def bindE_def)
  have b: "length (components_loop (filter is_dict xs)) = length (filter is_dict xs)"
    using components_loop_length [of xs] components_loop_filter [of xs] by simp
  show ?thesis
    using a b fallacies_loop_filter [of E xs] fallacies_loop_succeeds [of E xs]
      fallacies_loop_length [of E xs] structure_normalize_filter [of kvs xs E]
      fallacy_normalize_filter [of kvs xs E]
    by blast
qed

theorem non_object_entries_dropped_witness:
  "structure_normalize (example_env mixed_components_response mixed_components_json)
       mixed_components_json =
     structure_normalize (example_env mixed_components_response mixed_components_json)
       (JDict [(ascii ''argument_components'',
                JList [JDict [(ascii ''type'', JStr (ascii ''claim''))]]),
               (ascii ''argument_components'',
                JList [JInt 1, JDict [(ascii ''type'', JStr (ascii ''claim''))],
                       JStr (ascii ''x''), JNull])])
   \<and> parse_components
        (JList [JInt 1, JDict [(ascii ''type'', JStr (ascii ''claim''))],
                JStr (ascii ''x''), JNull]) =
      Inr [\<lparr>cd_type = JStr (ascii ''claim''), cd_content = JStr [], cd_location = JStr []\<rparr>]"
  using non_object_entries_dropped
    [of "[JInt 1, JDict [(ascii ''type'', JStr (ascii ''claim''))], JStr (ascii ''x''), JNull]"
       "example_env mixed_components_response mixed_components_json"
       "[(ascii ''argument_components'',
          JList [JInt 1, JDict [(ascii ''type'', JStr (ascii ''claim''))],
                 JStr (ascii ''x''), JNull])]"]
  by (simp add: mixed_components_json_def is_dict_def get_def ascii_def)

section \<open>The evaluation as a whole\<close>

lemma strip_unknown: "strip_fences unknown_type_response = unknown_type_response"
  by (simp add: unknown_type_response_def text_defs)

lemma strip_empty_object: "strip_fences (ascii ''{}'') = ascii ''{}''"
  by (simp add: text_defs)

lemma unknown_ne: "ascii ''{}'' \<noteq> unknown_type_response"
  by (simp add: unknown_type_response_def ascii_def)

lemma depth_empty:
  "depth_analyze unknown_type_env article_text =
     \<lparr>dd_score = Fin 0.5, dd_has_causal_analysis = False, dd_has_comparative_analysis = False,
      dd_analysis_levels = 1, dd_depth_explanation = []\<rparr>"
  by (simp add: depth_analyze_def depth_parse_response_def depth_parse_body_def
      depth_normalize_def unknown_type_env_def strip_empty_object unknown_ne value_defs)

lemma structure_empty:
  "structure_analyze unknown_type_env article_text =
     \<lparr>sd_score = Fin 0.5, sd_has_clear_structure = False, sd_paragraph_coherence = Fin 0.5,
      sd_argument_components = [], sd_structure_explanation = []\<rparr>"
  by (simp add: structure_analyze_def structure_parse_response_def structure_parse_body_def
      structure_normalize_def parse_components_def unknown_type_env_def strip_empty_object
      unknown_ne value_defs)

lemma fallacy_unknown:
  "fallacy_analyze unknown_type_env article_text =
     \<lparr>fd_score = Fin 0.5,
      fd_fallacies =
        [\<lparr>fe_type = JStr (ascii ''appeal_to_authority''),
          fe_location = JStr (ascii ''paragraph 2''),
          fe_description = JStr (ascii ''cites a famous investor''),
          fe_severity = Fin 0.5\<rparr>],
      fd_fallacy_explanation = []\<rparr>"
  by (simp add: fallacy_analyze_def fallacy_parse_response_def fallacy_parse_body_def
      fallacy_normalize_def unknown_type_env_def unknown_type_json_def strip_unknown
      derived_score_def pf_sum_def pf_sub_def value_defs ascii_def)

text \<open>
  When the model answers every agent with an empty object, every field takes its
  default and \<open>evaluate\<close> returns a record: the overall score is
  \<open>0.5 * 0.30 + 0.5 * 0.30 + 0.7 * 0.25 + 1.0 * 0.15\<close>.
\<close>

lemma evaluate_empty_objects:
  "map_sum id overall_score (evaluate (example_env (ascii ''{}'') (JDict [])) article_text title)
     = Inr 0.625"
proof -
  let ?E = "example_env (ascii ''{}'') (JDict [])"
  have d: "depth_analyze ?E article_text = depth_fallback []\<lparr>dd_score := Fin 0.5\<rparr>"
    by (simp add: depth_analyze_def depth_parse_response_def depth_parse_body_def
        depth_normalize_def depth_fallback_def example_env_def strip_empty_object value_defs)
  have s: "structure_analyze ?E article_text = structure_fallback []"
    by (simp add: structure_analyze_def structure_parse_response_def structure_parse_body_def
        structure_normalize_def structure_fallback_def parse_components_def example_env_def
        strip_empty_object value_defs)
  have f: "fallacy_analyze ?E article_text = fallacy_fallback []\<lparr>fd_score := Fin 1\<rparr>"
    by (simp add: fallacy_analyze_def fallacy_parse_response_def fallacy_parse_body_def
        fallacy_normalize_def fallacy_fallback_def derived_score_def example_env_def
        strip_empty_object value_defs)
  have c: "consistency_analyze ?E article_text = consistency_fallback []"
    by (simp add: consistency_analyze_def consistency_parse_response_def
        consistency_parse_body_def consistency_normalize_def consistency_fallback_def
        contradictions_list_def example_env_def strip_empty_object value_defs)
  show ?thesis
    by (simp add: evaluate_def d s f c Let_def bindE_def depth_fallback_def
        structure_fallback_def fallacy_fallback_def consistency_fallback_def
        new_ReasoningDepthResult_def new_ArgumentStructureResult_def
        new_LogicalFallacyResult_def new_ConsistencyResult_def
        new_ReasoningLogicEvaluation_def validate_unit_def calculate_overall_score_def
        py_round3_def round_half_even_def)
qed

text \<open>
  C1 fails on the code. The model answers the fallacy agent with one fallacy, well
  formed but for its type \<open>appeal_to_authority\<close>, which is not a value of
  \<open>LogicalFallacyType\<close>. The agent returns the fallacy unchanged (only a missing type
  is replaced, by \<open>overgeneralization\<close>), and \<open>LogicalFallacy(**f)\<close> in \<open>evaluate\<close>
  raises \<open>ValidationError\<close>, which nothing catches: \<open>evaluate\<close> returns no record.
\<close>

theorem evaluate_raises_on_unknown_fallacy_type:
  "fd_fallacies (fallacy_analyze unknown_type_env article_text) =
     [\<lparr>fe_type = JStr (ascii ''appeal_to_authority''),
       fe_location = JStr (ascii ''paragraph 2''),
       fe_description = JStr (ascii ''cites a famous investor''),
       fe_severity = Fin 0.5\<rparr>]
   \<and> evaluate unknown_type_env article_text title
       = Inl (Error ValidationError (ascii ''LogicalFallacy''))"
proof -
  have "fallacy_type_of_str (ascii ''appeal_to_authority'') = None"
    by (simp add: fallacy_type_of_str_def ascii_def)
  then show ?thesis
    by (simp add: evaluate_def depth_empty structure_empty fallacy_unknown Let_def bindE_def
      new_ReasoningDepthResult_def new_ArgumentStructureResult_def validate_unit_def
      new_LogicalFallacy_def validate_fallacy_type_def)
qed

end
